theory Spec2Isabelle
  imports Main "HOL-Library.Sublist" "HOL-Library.Multiset"
begin

section \<open>Python strings\<close>

text \<open>
  A Python \<open>str\<close> is a sequence of Unicode code points. The source file holds several
  literals outside ASCII (the bullet, sub-bullet and divider markers, stored in the file as
  three code points each), so a string is modelled as a list of code points, each an
  integer, rather than as a list of bytes; \<open>lit\<close> embeds an ASCII literal.
\<close>

type_synonym pystr = "int list"

definition lit :: "string \<Rightarrow> pystr" where
  "lit s = map of_char s"

definition nl :: pystr where
  "nl = [10]"

definition dquote :: pystr where
  "dquote = [34]"

text \<open>\<open>str.isspace\<close> on one code point: the whitespace set of \<open>str.strip()\<close> and of
  the regular-expression class \<open>\s\<close> on \<open>str\<close> patterns.\<close>

definition py_isspace :: "int \<Rightarrow> bool" where
  "py_isspace c \<longleftrightarrow>
     (9 \<le> c \<and> c \<le> 13) \<or> (28 \<le> c \<and> c \<le> 32) \<or> c = 133 \<or> c = 160 \<or> c = 5760 \<or>
     (8192 \<le> c \<and> c \<le> 8202) \<or> c = 8232 \<or> c = 8233 \<or> c = 8239 \<or> c = 8287 \<or> c = 12288"

definition py_lstrip :: "pystr \<Rightarrow> pystr" where
  "py_lstrip s = dropWhile py_isspace s"

definition py_rstrip :: "pystr \<Rightarrow> pystr" where
  "py_rstrip s = rev (dropWhile py_isspace (rev s))"

definition py_strip :: "pystr \<Rightarrow> pystr" where
  "py_strip s = py_rstrip (py_lstrip s)"

text \<open>\<open>s.strip(chars)\<close>: removes leading and trailing code points that occur in \<open>chars\<close>.\<close>

definition py_strip_chars :: "pystr \<Rightarrow> pystr \<Rightarrow> pystr" where
  "py_strip_chars chars s =
     rev (dropWhile (\<lambda>c. c \<in> set chars) (rev (dropWhile (\<lambda>c. c \<in> set chars) s)))"

definition py_startswith :: "pystr \<Rightarrow> pystr \<Rightarrow> bool" where
  "py_startswith s p = prefix p s"

definition py_endswith :: "pystr \<Rightarrow> pystr \<Rightarrow> bool" where
  "py_endswith s p = suffix p s"

text \<open>\<open>sep.join(xs)\<close>.\<close>

fun py_join :: "pystr \<Rightarrow> pystr list \<Rightarrow> pystr" where
  "py_join sep [] = []"
| "py_join sep [x] = x"
| "py_join sep (x # y # ys) = x @ sep @ py_join sep (y # ys)"

text \<open>\<open>s.split(sep)\<close> for a non-empty separator: the pieces between the leftmost,
  non-overlapping occurrences of \<open>sep\<close>. Every call site passes a non-empty literal
  (Python raises \<open>ValueError\<close> on an empty separator).\<close>

fun py_split :: "pystr \<Rightarrow> pystr \<Rightarrow> pystr list" where
  "py_split sep [] = [[]]"
| "py_split sep (x # xs) =
     (if prefix sep (x # xs) then [] # py_split sep (drop (length sep - 1) xs)
      else (case py_split sep xs of [] \<Rightarrow> [[x]] | p # ps \<Rightarrow> (x # p) # ps))"

text \<open>\<open>s.replace(old, new)\<close>: leftmost, non-overlapping occurrences; an empty
  \<open>old\<close> matches before every code point and at the end.\<close>

fun py_replace :: "pystr \<Rightarrow> pystr \<Rightarrow> pystr \<Rightarrow> pystr" where
  "py_replace old new [] = (if old = [] then new else [])"
| "py_replace old new (x # xs) =
     (if old = [] then new @ x # py_replace old new xs
      else if prefix old (x # xs) then new @ py_replace old new (drop (length old - 1) xs)
      else x # py_replace old new xs)"

text \<open>\<open>str(n)\<close> for an integer: decimal digits, with a minus sign when negative.\<close>

fun show_nat :: "nat \<Rightarrow> pystr" where
  "show_nat n = (if n < 10 then [48 + int n] else show_nat (n div 10) @ [48 + int (n mod 10)])"

definition show_int :: "int \<Rightarrow> pystr" where
  "show_int i = (if i < 0 then 45 # show_nat (nat (- i)) else show_nat (nat i))"

text \<open>\<open>s * n\<close>: repetition of a string.\<close>

definition py_repeat :: "pystr \<Rightarrow> nat \<Rightarrow> pystr" where
  "py_repeat s n = concat (replicate n s)"

text \<open>The number of positions of \<open>s\<close> at which \<open>pat\<close> occurs.\<close>

fun occurrences :: "pystr \<Rightarrow> pystr \<Rightarrow> nat" where
  "occurrences pat [] = 0"
| "occurrences pat (x # xs) = (if prefix pat (x # xs) then 1 else 0) + occurrences pat xs"

section \<open>Pull requests, filter and formatter\<close>

record pull_request =
  title :: pystr
  body :: pystr
  number :: int
  url :: pystr
  merged_at :: int
  labels :: "pystr list"
  repo_name :: pystr

text \<open>
  One literal of a pattern compiled with \<open>re.IGNORECASE\<close> on a \<open>str\<close> pattern, for
  an ASCII pattern character \<open>p\<close>: an uncased \<open>p\<close> matches itself only; a letter matches
  the code points whose simple lower-case mapping is the lower-case letter (the two ASCII
  cases, U+0130 for \<open>i\<close>, U+212A for \<open>k\<close>) and the extra equivalents of the engine's
  case table (U+0131 for \<open>i\<close>, U+017F for \<open>s\<close>).
\<close>

definition ascii_lower :: "int \<Rightarrow> int" where
  "ascii_lower p = (if 65 \<le> p \<and> p \<le> 90 then p + 32 else p)"

definition ignorecase_literal :: "int \<Rightarrow> int \<Rightarrow> bool" where
  "ignorecase_literal p c =
     (let lo = ascii_lower p in
      if 97 \<le> lo \<and> lo \<le> 122 then
        c = lo \<or> c + 32 = lo \<or>
        (lo = 105 \<and> (c = 304 \<or> c = 305)) \<or> (lo = 107 \<and> c = 8490) \<or> (lo = 115 \<and> c = 383)
      else c = p)"

text \<open>\<open>pattern.match(s)\<close> for a pattern that is a sequence of literals: the
  literals match the first code points of \<open>s\<close>.\<close>

fun ignorecase_match :: "pystr \<Rightarrow> pystr \<Rightarrow> bool" where
  "ignorecase_match [] s = True"
| "ignorecase_match (p # ps) [] = False"
| "ignorecase_match (p # ps) (c # cs) = (ignorecase_literal p c \<and> ignorecase_match ps cs)"

text \<open>\<open>re.compile(r'^chore\(deps\)', re.IGNORECASE).match(title)\<close>.\<close>

definition deps_pattern_match :: "pystr \<Rightarrow> bool" where
  "deps_pattern_match t = ignorecase_match (lit ''chore(deps)'') t"

record filtered_prs =
  regular :: "pull_request list"
  deps :: "pull_request list"

text \<open>The loop of \<open>filter_prs\<close>: each pull request is appended to one of two lists.\<close>

fun filter_loop :: "pull_request list \<Rightarrow> filtered_prs \<Rightarrow> filtered_prs" where
  "filter_loop [] acc = acc"
| "filter_loop (pr # prs) acc =
     (if deps_pattern_match (title pr)
      then filter_loop prs (acc\<lparr>deps := deps acc @ [pr]\<rparr>)
      else filter_loop prs (acc\<lparr>regular := regular acc @ [pr]\<rparr>))"

definition filter_prs :: "pull_request list \<Rightarrow> filtered_prs" where
  "filter_prs prs = filter_loop prs \<lparr>regular = [], deps = []\<rparr>"

definition no_prs_sentinel :: pystr where
  "no_prs_sentinel = lit ''No pull requests found.''"

text \<open>The body of the formatter's loop: the text block of one pull request.\<close>

definition format_pr :: "pull_request \<Rightarrow> pystr" where
  "format_pr pr =
     (let title' = py_strip (title pr);
          body' = (if body pr \<noteq> [] then py_strip (body pr) else []);
          labels_text = (if labels pr \<noteq> [] then lit ''Labels: '' @ py_join (lit '', '') (labels pr)
                         else []);
          info0 = lit ''PR #'' @ show_int (number pr) @ lit '': '' @ title';
          info1 = (if body' \<noteq> [] then info0 @ nl @ lit ''Description: '' @ body' else info0);
          info2 = (if labels_text \<noteq> [] then info1 @ nl @ labels_text else info1)
      in if url pr \<noteq> [] then info2 @ nl @ lit ''URL: '' @ url pr else info2)"

definition format_prs_for_summary :: "pull_request list \<Rightarrow> pystr" where
  "format_prs_for_summary prs =
     (if prs = [] then no_prs_sentinel else py_join (nl @ nl) (map format_pr prs))"

section \<open>Exceptions\<close>

text \<open>
  A raised exception is a value: its class, as far as an \<open>except\<close> clause of the source
  tells classes apart, and its \<open>str()\<close>. Only \<open>Exception\<close> subclasses are modelled.
  Exceptions raised and caught inside the summarizer carry an empty message: the source
  only logs them.
\<close>

datatype exn_class =
  JSONDecodeError | KeyError | TypeError | AttributeError | RecursionError | ValueError
  | SlackApiError | OtherError

datatype exn = Exn (exn_cls: exn_class) (exn_str: pystr)

section \<open>Structured replies: \<open>json.loads\<close>\<close>

text \<open>
  The value \<open>json.loads\<close> returns. A float keeps its lexeme: its arithmetic value is
  floating point and is left to the runtime parameters below.
\<close>

datatype json =
  JNull | JBool bool | JInt int | JFloat pystr | JStr pystr
  | JArr "json list" | JObj "(pystr \<times> json) list"

text \<open>
  \<open>json.loads\<close> belongs to the Python library, not to this repository. It is modelled
  from the library's documented behaviour: a scanner that turns the text into tokens and a
  pushdown automaton over the tokens, which reads them in the order of the text, so the
  first failure in the text decides the exception. Two limits of the interpreter are
  parameters: the number of containers that may be open at once before the recursion
  limit is hit (entering one more raises \<open>RecursionError\<close>), and the digit limit of
  integer conversion (an integer with more digits raises \<open>ValueError\<close>; zero means no
  limit). Every other failure is a \<open>JSONDecodeError\<close>.
\<close>

definition is_digit :: "int \<Rightarrow> bool" where
  "is_digit c \<longleftrightarrow> 48 \<le> c \<and> c \<le> 57"

definition hex_val :: "int \<Rightarrow> int option" where
  "hex_val c =
     (if 48 \<le> c \<and> c \<le> 57 then Some (c - 48)
      else if 97 \<le> c \<and> c \<le> 102 then Some (c - 87)
      else if 65 \<le> c \<and> c \<le> 70 then Some (c - 55)
      else None)"

text \<open>Four hexadecimal digits of a \<open>\uXXXX\<close> escape.\<close>

fun hex4 :: "pystr \<Rightarrow> int option" where
  "hex4 [a, b, c, d] =
     (case (hex_val a, hex_val b, hex_val c, hex_val d) of
        (Some x, Some y, Some z, Some w) \<Rightarrow> Some (((x * 16 + y) * 16 + z) * 16 + w)
      | _ \<Rightarrow> None)"
| "hex4 _ = None"

definition is_high_surrogate :: "int \<Rightarrow> bool" where
  "is_high_surrogate c \<longleftrightarrow> 55296 \<le> c \<and> c \<le> 56319"

definition is_low_surrogate :: "int \<Rightarrow> bool" where
  "is_low_surrogate c \<longleftrightarrow> 56320 \<le> c \<and> c \<le> 57343"

definition join_surrogates :: "int \<Rightarrow> int \<Rightarrow> int" where
  "join_surrogates h l = 65536 + (h - 55296) * 1024 + (l - 56320)"

definition escape_char :: "int \<Rightarrow> int option" where
  "escape_char e =
     (if e = 34 then Some 34 else if e = 92 then Some 92 else if e = 47 then Some 47
      else if e = 98 then Some 8 else if e = 102 then Some 12 else if e = 110 then Some 10
      else if e = 114 then Some 13 else if e = 116 then Some 9 else None)"

definition scanned :: "int \<Rightarrow> nat \<Rightarrow> (pystr \<times> nat) option \<Rightarrow> (pystr \<times> nat) option" where
  "scanned c k r = (case r of None \<Rightarrow> None | Some (s, n) \<Rightarrow> Some (c # s, n + k))"

text \<open>
  The text after an opening quote: the decoded string and the number of code points
  read, closing quote included. Strict mode: a control character ends the scan in error.
\<close>

fun scan_string :: "pystr \<Rightarrow> (pystr \<times> nat) option" where
  "scan_string [] = None"
| "scan_string (c # cs) =
     (if c = 34 then Some ([], 1)
      else if c = 92 then
        (case cs of
           [] \<Rightarrow> None
         | e # cs' \<Rightarrow>
             if e = 117 then
               (case hex4 (take 4 cs') of
                  None \<Rightarrow> None
                | Some h \<Rightarrow>
                    (case (if is_high_surrogate h \<and> take 2 (drop 4 cs') = [92, 117]
                           then hex4 (take 4 (drop 6 cs')) else None) of
                       None \<Rightarrow> scanned h 6 (scan_string (drop 4 cs'))
                     | Some l \<Rightarrow>
                         if is_low_surrogate l
                         then scanned (join_surrogates h l) 12 (scan_string (drop 10 cs'))
                         else scanned h 6 (scan_string (drop 4 cs'))))
             else (case escape_char e of
                     None \<Rightarrow> None
                   | Some d \<Rightarrow> scanned d 2 (scan_string cs')))
      else if c < 32 then None
      else scanned c 1 (scan_string cs))"

definition digits_value :: "pystr \<Rightarrow> int" where
  "digits_value ds = foldl (\<lambda>a d. a * 10 + (d - 48)) 0 ds"

datatype token =
  TLBrace | TRBrace | TLBracket | TRBracket | TColon | TComma | TAtom json | TOverlong | TBad

text \<open>
  A number at the head of the text: an optional minus sign, an integer part without
  leading zeros, an optional fraction (a dot and at least one digit) and an optional exponent
  (with at least one digit). The result is the token and the length of the lexeme; an
  integer with more digits than the limit is the token \<open>TOverlong\<close>.
\<close>

definition scan_number :: "int \<Rightarrow> pystr \<Rightarrow> (token \<times> nat) option" where
  "scan_number max_digits s =
     (let sign = (if prefix [45] s then [45] else []);
          r0 = drop (length sign) s;
          ip = (if prefix [48] r0 then [48] else takeWhile is_digit r0);
          r1 = drop (length ip) r0;
          fr = (if prefix [46] r1 \<and> takeWhile is_digit (drop 1 r1) \<noteq> []
                then 46 # takeWhile is_digit (drop 1 r1) else []);
          r2 = drop (length fr) r1;
          es = (if prefix [43] (drop 1 r2) \<or> prefix [45] (drop 1 r2) then take 1 (drop 1 r2) else []);
          ed = takeWhile is_digit (drop (1 + length es) r2);
          ex = (if (prefix [101] r2 \<or> prefix [69] r2) \<and> ed \<noteq> [] then take 1 r2 @ es @ ed else [])
      in if ip = [] then None
         else if fr = [] \<and> ex = []
         then Some (if 0 < max_digits \<and> max_digits < int (length ip) then TOverlong
                    else TAtom (JInt (if sign = [] then digits_value ip else - digits_value ip)),
                    length sign + length ip)
         else Some (TAtom (JFloat (sign @ ip @ fr @ ex)),
                    length sign + length ip + length fr + length ex))"

text \<open>The tokens of a text, up to the first place where no token starts, which is the
  token \<open>TBad\<close>.\<close>

fun lex :: "int \<Rightarrow> pystr \<Rightarrow> token list" where
  "lex d [] = []"
| "lex d (c # cs) =
     (if c = 32 \<or> c = 9 \<or> c = 10 \<or> c = 13 then lex d cs
      else if c = 123 then TLBrace # lex d cs
      else if c = 125 then TRBrace # lex d cs
      else if c = 91 then TLBracket # lex d cs
      else if c = 93 then TRBracket # lex d cs
      else if c = 58 then TColon # lex d cs
      else if c = 44 then TComma # lex d cs
      else if c = 34 then
        (case scan_string cs of
           None \<Rightarrow> [TBad]
         | Some (s, n) \<Rightarrow> TAtom (JStr s) # lex d (drop n cs))
      else if prefix (lit ''null'') (c # cs) then TAtom JNull # lex d (drop 3 cs)
      else if prefix (lit ''true'') (c # cs) then TAtom (JBool True) # lex d (drop 3 cs)
      else if prefix (lit ''false'') (c # cs) then TAtom (JBool False) # lex d (drop 4 cs)
      else if prefix (lit ''NaN'') (c # cs) then TAtom (JFloat (lit ''NaN'')) # lex d (drop 2 cs)
      else if prefix (lit ''Infinity'') (c # cs)
      then TAtom (JFloat (lit ''Infinity'')) # lex d (drop 7 cs)
      else if prefix (lit ''-Infinity'') (c # cs)
      then TAtom (JFloat (lit ''-Infinity'')) # lex d (drop 8 cs)
      else (case scan_number d (c # cs) of
              None \<Rightarrow> [TBad]
            | Some (t, n) \<Rightarrow> t # lex d (drop (n - 1) cs)))"

text \<open>
  The automaton: what may come next, and the stack of open containers. An object frame
  holds its members so far; \<open>FMember\<close> is an object whose key has been read and whose
  value is awaited. A step fails with the class of the exception.
\<close>

datatype expect =
  EValue | EValueOrClose | EKeyOrClose | EKey | EColon pystr | ECommaOrClose | EDone json

datatype frame =
  FArr "json list" | FObj "(pystr \<times> json) list" | FMember "(pystr \<times> json) list" pystr

definition complete :: "json \<Rightarrow> frame list \<Rightarrow> exn_class + (expect \<times> frame list)" where
  "complete v stk =
     (case stk of
        [] \<Rightarrow> Inr (EDone v, [])
      | FArr els # rest \<Rightarrow> Inr (ECommaOrClose, FArr (v # els) # rest)
      | FMember ms k # rest \<Rightarrow> Inr (ECommaOrClose, FObj ((k, v) # ms) # rest)
      | FObj ms # rest \<Rightarrow> Inl JSONDecodeError)"

text \<open>Where a value is expected: a container is entered only below the nesting limit,
  and an overlong integer fails in its conversion.\<close>

definition start_value :: "int \<Rightarrow> token \<Rightarrow> frame list \<Rightarrow> exn_class + (expect \<times> frame list)" where
  "start_value limit t stk =
     (case t of
        TAtom v \<Rightarrow> complete v stk
      | TLBracket \<Rightarrow>
          (if int (length stk) < limit then Inr (EValueOrClose, FArr [] # stk)
           else Inl RecursionError)
      | TLBrace \<Rightarrow>
          (if int (length stk) < limit then Inr (EKeyOrClose, FObj [] # stk)
           else Inl RecursionError)
      | TOverlong \<Rightarrow> Inl ValueError
      | _ \<Rightarrow> Inl JSONDecodeError)"

definition close_container :: "token \<Rightarrow> frame list \<Rightarrow> exn_class + (expect \<times> frame list)" where
  "close_container t stk =
     (case (t, stk) of
        (TRBracket, FArr els # rest) \<Rightarrow> complete (JArr (rev els)) rest
      | (TRBrace, FObj ms # rest) \<Rightarrow> complete (JObj (rev ms)) rest
      | _ \<Rightarrow> Inl JSONDecodeError)"

definition pda_step ::
  "int \<Rightarrow> expect \<times> frame list \<Rightarrow> token \<Rightarrow> exn_class + (expect \<times> frame list)" where
  "pda_step limit st t =
     (case st of
        (EDone v, stk) \<Rightarrow> Inl JSONDecodeError
      | (EValue, stk) \<Rightarrow> start_value limit t stk
      | (EValueOrClose, stk) \<Rightarrow>
          (if t = TRBracket then close_container t stk else start_value limit t stk)
      | (EKeyOrClose, stk) \<Rightarrow>
          (case t of TAtom (JStr k) \<Rightarrow> Inr (EColon k, stk)
           | TRBrace \<Rightarrow> close_container t stk
           | _ \<Rightarrow> Inl JSONDecodeError)
      | (EKey, stk) \<Rightarrow>
          (case t of TAtom (JStr k) \<Rightarrow> Inr (EColon k, stk) | _ \<Rightarrow> Inl JSONDecodeError)
      | (EColon k, stk) \<Rightarrow>
          (case (t, stk) of (TColon, FObj ms # rest) \<Rightarrow> Inr (EValue, FMember ms k # rest)
           | _ \<Rightarrow> Inl JSONDecodeError)
      | (ECommaOrClose, stk) \<Rightarrow>
          (case (t, stk) of
             (TComma, FArr els # rest) \<Rightarrow> Inr (EValue, stk)
           | (TComma, FObj ms # rest) \<Rightarrow> Inr (EKey, stk)
           | _ \<Rightarrow> close_container t stk))"

fun pda_run ::
  "int \<Rightarrow> expect \<times> frame list \<Rightarrow> token list \<Rightarrow> exn_class + (expect \<times> frame list)" where
  "pda_run limit st [] = Inr st"
| "pda_run limit st (t # ts) =
     (case pda_step limit st t of Inl c \<Rightarrow> Inl c | Inr st' \<Rightarrow> pda_run limit st' ts)"

text \<open>\<open>json.loads(s)\<close> under a nesting limit and a digit limit.\<close>

definition json_loads :: "int \<Rightarrow> int \<Rightarrow> pystr \<Rightarrow> exn + json" where
  "json_loads limit max_digits s =
     (case pda_run limit (EValue, []) (lex max_digits s) of
        Inl c \<Rightarrow> Inl (Exn c [])
      | Inr (EDone v, []) \<Rightarrow> Inr v
      | Inr _ \<Rightarrow> Inl (Exn JSONDecodeError []))"

section \<open>External services and the runtime\<close>

text \<open>
  One block of the outgoing chat payload: a header (plain text, with its emoji flag), a
  divider, or a section of markdown text.
\<close>

datatype block = Header pystr bool | Divider | Section pystr

datatype provider = OpenAI | Claude

text \<open>
  The effects of a run, in order: a query of the source-control host (repository and
  window start), a completion request (the backend and the messages sent), a post to the
  chat platform (channel, fallback text, blocks) and an attempt to write a file (name and
  contents). Logging is not recorded: it changes no result.
\<close>

datatype event =
  GithubQuery pystr int
  | ProviderCall provider "pystr list"
  | SlackPost pystr pystr "block list"
  | FileWrite pystr pystr

type_synonym world = "event list"

text \<open>What the source-control host returns for one pull request.\<close>

record raw_pull =
  pull_title :: pystr
  pull_body :: "pystr option"
  pull_number :: int
  pull_html_url :: pystr
  pull_merged_at :: "int option"
  pull_labels :: "pystr list"

text \<open>
  The collaborators outside the repository are parameters. Each answer may depend on the
  effects so far, so one service can fail on one call and succeed on the next.
  \<^item> \<open>github_pulls\<close>: the full pull requests found for a repository and a window start,
    or the exception of the first failing call;
  \<^item> \<open>openai_create\<close>: the content of the first choice (\<open>None\<close> when missing);
  \<open>claude_create\<close>: the text of each content block (\<open>None\<close> for a block without text);
  \<^item> \<open>chat_postMessage\<close>: the delivery timestamp, or the platform's error;
  \<^item> \<open>file_write\<close>: opening and writing a file;
  \<^item> \<open>py_str\<close>: \<open>str()\<close> of a parsed value that is not a string;
    \<open>float_truthy\<close>: the truth value of the float a lexeme denotes;
  \<^item> \<open>window_start\<close> and \<open>date_range\<close>: the clock, for a number of days back;
  \<^item> \<open>spare_nesting\<close>: the recursion limit of the interpreter where the reply is parsed,
    as the number of containers the parser can open beyond the four that the reply format
    of the prompt nests (the program never lowers the interpreter's limit, so a reply of
    that format fits); \<open>int_max_str_digits\<close>: the digit limit of integer conversion.
\<close>

record env =
  github_pulls :: "world \<Rightarrow> pystr \<Rightarrow> int \<Rightarrow> exn + raw_pull list"
  provider_kind :: provider
  openai_create :: "world \<Rightarrow> pystr \<Rightarrow> pystr \<Rightarrow> exn + pystr option"
  claude_create :: "world \<Rightarrow> pystr \<Rightarrow> exn + pystr option list"
  chat_postMessage :: "world \<Rightarrow> pystr \<Rightarrow> pystr \<Rightarrow> block list \<Rightarrow> exn + pystr"
  file_write :: "world \<Rightarrow> pystr \<Rightarrow> pystr \<Rightarrow> exn + unit"
  slack_channel :: pystr
  py_str :: "json \<Rightarrow> pystr"
  float_truthy :: "pystr \<Rightarrow> bool"
  window_start :: "int \<Rightarrow> int"
  date_range :: "int \<Rightarrow> pystr"
  spare_nesting :: nat
  int_max_str_digits :: int

text \<open>The number of containers the parser may have open at once.\<close>

definition nesting_limit :: "env \<Rightarrow> int" where
  "nesting_limit e = 4 + int (spare_nesting e)"

section \<open>Provider Adapter\<close>

definition unable_sentinel :: pystr where
  "unable_sentinel = lit ''Unable to generate summary.''"

definition normalize_summary :: "pystr \<Rightarrow> pystr" where
  "normalize_summary summary = (if summary \<noteq> [] then py_strip summary else unable_sentinel)"

text \<open>
  \<open>generate_summary\<close> of the two backends. The first sends the two prompts as two
  messages; the second sends them joined by a blank line and concatenates the text of the
  reply's blocks. An exception of the call is re-raised.
\<close>

definition generate_summary :: "env \<Rightarrow> pystr \<Rightarrow> pystr \<Rightarrow> world \<Rightarrow> (exn + pystr) \<times> world" where
  "generate_summary e system_prompt user_prompt w =
     (case provider_kind e of
        OpenAI \<Rightarrow>
          (case openai_create e w system_prompt user_prompt of
             Inl x \<Rightarrow> Inl x
           | Inr content \<Rightarrow> Inr (normalize_summary (case content of None \<Rightarrow> [] | Some t \<Rightarrow> t)),
           w @ [ProviderCall OpenAI [system_prompt, user_prompt]])
      | Claude \<Rightarrow>
          (let combined = system_prompt @ nl @ nl @ user_prompt in
           (case claude_create e w combined of
              Inl x \<Rightarrow> Inl x
            | Inr blocks \<Rightarrow>
                Inr (normalize_summary (concat (map (\<lambda>b. case b of None \<Rightarrow> [] | Some t \<Rightarrow> t) blocks))),
            w @ [ProviderCall Claude [combined]])))"

section \<open>Pull-Request Fetcher\<close>

definition to_pull_request :: "pystr \<Rightarrow> raw_pull \<Rightarrow> int \<Rightarrow> pull_request" where
  "to_pull_request repo p m =
     \<lparr>title = pull_title p,
      body = (case pull_body p of None \<Rightarrow> [] | Some b \<Rightarrow> b),
      number = pull_number p,
      url = pull_html_url p,
      merged_at = m,
      labels = pull_labels p,
      repo_name = repo\<rparr>"

text \<open>The loop of \<open>get_merged_prs\<close>: a pull request without a merge time is skipped.\<close>

fun merged_pulls :: "pystr \<Rightarrow> raw_pull list \<Rightarrow> pull_request list" where
  "merged_pulls repo [] = []"
| "merged_pulls repo (p # ps) =
     (case pull_merged_at p of
        None \<Rightarrow> merged_pulls repo ps
      | Some m \<Rightarrow> to_pull_request repo p m # merged_pulls repo ps)"

definition get_merged_prs ::
  "env \<Rightarrow> pystr \<Rightarrow> int \<Rightarrow> world \<Rightarrow> (exn + pull_request list) \<times> world" where
  "get_merged_prs e repo since w =
     (case github_pulls e w repo since of
        Inl x \<Rightarrow> Inl x
      | Inr raws \<Rightarrow> Inr (merged_pulls repo raws),
      w @ [GithubQuery repo since])"

section \<open>Summarizer\<close>

text \<open>The markers as the source file spells them: three code points each.\<close>

definition bullet :: pystr where
  "bullet = [226, 8364, 162]"

definition sub_bullet :: pystr where
  "sub_bullet = [226, 8212, 166]"

definition divider_unit :: pystr where
  "divider_unit = [226, 8221, 8364]"

definition divider :: pystr where
  "divider = py_repeat divider_unit 50"

definition prompt_lines :: "pystr list" where
  "prompt_lines =
     [lit ''You are an expert technical writer creating user-facing release notes. Your task is to transform pull request data into clear, benefit-focused release notes.'',
      [],
      lit ''CRITICAL RULES:'',
      lit ''1. NEVER list individual PR numbers or titles'',
      lit ''2. NEVER include repository names in the output (they will be added automatically)'',
      lit ''3. SYNTHESIZE all changes into coherent features and improvements'',
      lit ''4. Focus on WHY changes matter to users/developers, but include relevant technical context'',
      lit ''5. Group related technical changes together'',
      [],
      lit ''INPUT: You'' @ [39] @ lit ''ll receive PR titles, descriptions, and commit messages for multiple repositories.'',
      [],
      lit ''OUTPUT FORMAT (JSON):'',
      lit ''```json'',
      lit ''{'',
      lit ''  '' @ [34] @ lit ''categories'' @ [34] @ lit '': ['',
      lit ''    {'',
      lit ''      '' @ [34] @ lit ''name'' @ [34] @ lit '': '' @ [34] @ lit ''Feature Category'' @ [34] @ lit '','',
      lit ''      '' @ [34] @ lit ''items'' @ [34] @ lit '': ['',
      lit ''        '' @ [34] @ lit ''Specific improvement with clear benefit and technical context'' @ [34] @ lit '','',
      lit ''        '' @ [34] @ lit ''Another improvement with impact described'' @ [34],
      lit ''      ]'',
      lit ''    },'',
      lit ''    {'',
      lit ''      '' @ [34] @ lit ''name'' @ [34] @ lit '': '' @ [34] @ lit ''Bug Fixes'' @ [34] @ lit '', '',
      lit ''      '' @ [34] @ lit ''items'' @ [34] @ lit '': ['',
      lit ''        '' @ [34] @ lit ''Fixed [issue] that [what it was causing for users/developers]'' @ [34],
      lit ''      ]'',
      lit ''    },'',
      lit ''    {'',
      lit ''      '' @ [34] @ lit ''name'' @ [34] @ lit '': '' @ [34] @ lit ''Technical Improvements'' @ [34] @ lit '','',
      lit ''      '' @ [34] @ lit ''items'' @ [34] @ lit '': ['',
      lit ''        '' @ [34] @ lit ''[Technical enhancement] that [benefit/impact]'' @ [34],
      lit ''      ]'',
      lit ''    }'',
      lit ''  ]'',
      lit ''}'',
      lit ''```'',
      [],
      lit ''IMPORTANT: Return ONLY valid JSON, no other text or formatting.'',
      [],
      lit ''TRANSFORMATION EXAMPLES:'',
      lit ''- '' @ [34] @ lit ''chore/add_user_settings_field'' @ [34] @ lit '' '' @ [226, 8224, 8217] @ lit '' '' @ [34] @ lit ''Added new user settings field for improved customization options'' @ [34],
      lit ''- '' @ [34] @ lit ''fix-dashboard-loading-performance'' @ [34] @ lit '' '' @ [226, 8224, 8217] @ lit '' '' @ [34] @ lit ''Optimized dashboard queries for improved loading performance'' @ [34],
      lit ''- '' @ [34] @ lit ''upgrade-ai-model'' @ [34] @ lit '' '' @ [226, 8224, 8217] @ lit '' '' @ [34] @ lit ''Upgraded AI model for improved response accuracy and context understanding'' @ [34],
      lit ''- '' @ [34] @ lit ''enhance-api-integration'' @ [34] @ lit '' '' @ [226, 8224, 8217] @ lit '' '' @ [34] @ lit ''Enhanced API integration with webhook support and improved error handling'' @ [34],
      lit ''- '' @ [34] @ lit ''db-optimization'' @ [34] @ lit '' '' @ [226, 8224, 8217] @ lit '' '' @ [34] @ lit ''Database query optimization for improved API response times'' @ [34],
      lit ''- '' @ [34] @ lit ''auth-refactor'' @ [34] @ lit '' '' @ [226, 8224, 8217] @ lit '' '' @ [34] @ lit ''Refactored authentication system to support OAuth2 and improve security'' @ [34],
      [],
      lit ''GUIDELINES:'',
      lit ''- Extract the actual feature from vague PR titles'',
      lit ''- Combine related PRs into single, comprehensive bullet points'',
      lit ''- Include relevant technical details that developers would care about'',
      lit ''- Prioritize changes by impact (user-facing first, then technical improvements)'',
      lit ''- Use active voice and specific benefits'',
      lit ''- For technical improvements, explain both the technical change and its benefit'',
      lit ''- Skip truly internal-only changes with no impact'',
      lit ''- NEVER include specific performance claims (like '' @ [34] @ lit ''5x faster'' @ [34] @ lit '', '' @ [34] @ lit ''40% improvement'' @ [34] @ lit '') unless explicitly proven in the PR'',
      lit ''- Use general terms like '' @ [34] @ lit ''improved performance'' @ [34] @ lit '', '' @ [34] @ lit ''optimized'' @ [34] @ lit '', '' @ [34] @ lit ''enhanced'' @ [34] @ lit '' instead of specific metrics'',
      lit ''- Focus on what was changed rather than unproven performance claims'',
      [],
      lit ''Analyze all PRs holistically and create a cohesive narrative of improvements, balancing user benefits with technical context.'']"

definition release_notes_prompt :: pystr where
  "release_notes_prompt = nl @ concat (map (\<lambda>l. l @ nl) prompt_lines)"

definition user_prompt_for :: "pystr \<Rightarrow> pystr \<Rightarrow> pystr" where
  "user_prompt_for repo prs_text =
     lit ''Repository: '' @ repo @ nl @ nl @ lit ''Pull Requests to analyze:'' @ nl @ prs_text @ nl @ nl @
     lit ''Create user-facing release notes following the format and guidelines above.''"

text \<open>\<open>re.sub(r'^json\s*', '', s)\<close> and \<open>re.sub(r'^```json\s*', '', s)\<close>: a leading
  tag and the whitespace after it.\<close>

definition re_sub_prefix :: "pystr \<Rightarrow> pystr \<Rightarrow> pystr" where
  "re_sub_prefix tag s = (if prefix tag s then dropWhile py_isspace (drop (length tag) s) else s)"

text \<open>
  \<open>re.sub(r'\s*```$', '', s)\<close>: \<open>$\<close> matches at the end of the text and before a
  newline that ends it, so a closing fence there is removed with the whitespace before it
  and the final newline, if any, stays.
\<close>

definition re_sub_fence_suffix :: "pystr \<Rightarrow> pystr" where
  "re_sub_fence_suffix s =
     (let core = (if suffix nl s then butlast s else s);
          rest = (if suffix nl s then nl else [])
      in if suffix (lit ''```'') core then py_rstrip (take (length core - 3) core) @ rest else s)"

definition clean_reply :: "pystr \<Rightarrow> pystr" where
  "clean_reply summary_json =
     py_strip (re_sub_fence_suffix (re_sub_prefix (lit ''```json'')
       (re_sub_prefix (lit ''json'') (py_strip summary_json))))"

text \<open>Truth value, iteration, \<open>.get\<close> and f-string formatting of a parsed value.\<close>

fun py_truthy :: "env \<Rightarrow> json \<Rightarrow> bool" where
  "py_truthy e JNull = False"
| "py_truthy e (JBool b) = b"
| "py_truthy e (JInt i) = (i \<noteq> 0)"
| "py_truthy e (JFloat l) = float_truthy e l"
| "py_truthy e (JStr s) = (s \<noteq> [])"
| "py_truthy e (JArr xs) = (xs \<noteq> [])"
| "py_truthy e (JObj kvs) = (kvs \<noteq> [])"

text \<open>A dictionary keeps each key once, at the place of its first occurrence and with
  the value of its last.\<close>

definition dict_keys :: "(pystr \<times> json) list \<Rightarrow> pystr list" where
  "dict_keys kvs = rev (remdups (rev (map fst kvs)))"

definition dict_get :: "(pystr \<times> json) list \<Rightarrow> pystr \<Rightarrow> json \<Rightarrow> json" where
  "dict_get kvs k d = (case map_of (rev kvs) k of None \<Rightarrow> d | Some v \<Rightarrow> v)"

fun py_iter :: "json \<Rightarrow> exn + json list" where
  "py_iter (JArr xs) = Inr xs"
| "py_iter (JStr s) = Inr (map (\<lambda>c. JStr [c]) s)"
| "py_iter (JObj kvs) = Inr (map JStr (dict_keys kvs))"
| "py_iter _ = Inl (Exn TypeError [])"

fun py_get :: "json \<Rightarrow> pystr \<Rightarrow> json \<Rightarrow> exn + json" where
  "py_get (JObj kvs) k d = Inr (dict_get kvs k d)"
| "py_get _ k d = Inl (Exn AttributeError [])"

fun py_format :: "env \<Rightarrow> json \<Rightarrow> pystr" where
  "py_format e (JStr s) = s"
| "py_format e v = py_str e v"

definition format_item :: "env \<Rightarrow> json \<Rightarrow> pystr" where
  "format_item e item = lit ''  '' @ sub_bullet @ lit '' '' @ py_format e item @ nl"

text \<open>The body of the loop over the categories, on the text so far.\<close>

definition format_category :: "env \<Rightarrow> json \<Rightarrow> pystr \<Rightarrow> exn + pystr" where
  "format_category e category acc =
     (case py_get category (lit ''name'') (JStr []) of
        Inl x \<Rightarrow> Inl x
      | Inr category_name \<Rightarrow>
          (case py_get category (lit ''items'') (JArr []) of
             Inl x \<Rightarrow> Inl x
           | Inr items \<Rightarrow>
               if py_truthy e items then
                 (case py_iter items of
                    Inl x \<Rightarrow> Inl x
                  | Inr its \<Rightarrow>
                      Inr (acc @ nl @ bullet @ lit '' *'' @ py_format e category_name @ lit ''*:'' @ nl @
                           concat (map (format_item e) its)))
               else Inr acc))"

fun format_categories :: "env \<Rightarrow> json list \<Rightarrow> pystr \<Rightarrow> exn + pystr" where
  "format_categories e [] acc = Inr acc"
| "format_categories e (c # cs) acc =
     (case format_category e c acc of
        Inl x \<Rightarrow> Inl x
      | Inr acc' \<Rightarrow> format_categories e cs acc')"

text \<open>The inner \<open>try\<close> block: clean the reply, parse it and format the document.\<close>

definition parse_and_format :: "env \<Rightarrow> pystr \<Rightarrow> pystr \<Rightarrow> exn + pystr" where
  "parse_and_format e repo summary_json =
     (case json_loads (nesting_limit e) (int_max_str_digits e) (clean_reply summary_json) of
        Inl x \<Rightarrow> Inl x
      | Inr data \<Rightarrow>
          (case py_get data (lit ''categories'') (JArr []) of
             Inl x \<Rightarrow> Inl x
           | Inr cats \<Rightarrow>
               (case py_iter cats of
                  Inl x \<Rightarrow> Inl x
                | Inr cs \<Rightarrow>
                    (case format_categories e cs (lit ''*'' @ repo @ lit ''*'' @ nl) of
                       Inl x \<Rightarrow> Inl x
                     | Inr formatted \<Rightarrow> Inr (formatted @ nl @ divider @ nl)))))"

definition no_changes_sentence :: "pystr \<Rightarrow> pystr" where
  "no_changes_sentence repo = lit ''*'' @ repo @ lit ''*: No changes in the specified time period.''"

definition raw_fallback :: "pystr \<Rightarrow> pystr \<Rightarrow> pystr" where
  "raw_fallback repo summary_json = lit ''*'' @ repo @ lit ''*:'' @ nl @ nl @ summary_json"

definition count_fallback :: "pystr \<Rightarrow> pystr \<Rightarrow> pystr" where
  "count_fallback repo prs_text =
     lit ''*'' @ repo @ lit ''*: '' @ show_int (int (length (py_split (lit ''PR #'') prs_text)) - 1) @
     lit '' pull requests merged. See individual PRs for details.''"

text \<open>The classes the inner \<open>except\<close> clause names. A \<open>ValueError\<close> that is not a
  \<open>JSONDecodeError\<close> and a \<open>RecursionError\<close> are not among them.\<close>

definition caught_by_parse_handler :: "exn \<Rightarrow> bool" where
  "caught_by_parse_handler x \<longleftrightarrow> exn_cls x \<in> {JSONDecodeError, KeyError, TypeError}"

definition summarize_with_ai :: "env \<Rightarrow> pystr \<Rightarrow> pystr \<Rightarrow> world \<Rightarrow> pystr \<times> world" where
  "summarize_with_ai e repo prs_text w =
     (if prs_text = [] \<or> prs_text = no_prs_sentinel then (no_changes_sentence repo, w)
      else
        (case generate_summary e release_notes_prompt (user_prompt_for repo prs_text) w of
           (Inl x, w') \<Rightarrow> (count_fallback repo prs_text, w')
         | (Inr summary_json, w') \<Rightarrow>
             (case parse_and_format e repo summary_json of
                Inr formatted \<Rightarrow> (formatted, w')
              | Inl x \<Rightarrow>
                  if caught_by_parse_handler x then (raw_fallback repo summary_json, w')
                  else (count_fallback repo prs_text, w'))))"

section \<open>Publisher\<close>

text \<open>The plain-text rendering: the chain of four \<open>replace\<close> calls.\<close>

definition text_version :: "pystr \<Rightarrow> pystr" where
  "text_version message =
     py_replace divider_unit (lit ''-'')
       (py_replace sub_bullet (lit ''  -'')
         (py_replace bullet (lit ''-'')
           (py_replace (lit ''*'') [] message)))"

definition header_text :: "pystr option \<Rightarrow> pystr" where
  "header_text date_range_opt =
     (let h = [240, 376, 8220, 176] @ lit '' Release Notes'' in
      case date_range_opt of
        None \<Rightarrow> h
      | Some d \<Rightarrow> (if d \<noteq> [] then h @ lit '' ('' @ d @ lit '')'' else h))"

text \<open>The body of the loop over the sections: the blocks one section appends.\<close>

definition section_blocks :: "pystr \<Rightarrow> block list" where
  "section_blocks section =
     (let section' = py_strip section in
      if section' \<noteq> [] then
        (case py_split nl section' of
           [] \<Rightarrow> []
         | first # rest \<Rightarrow>
             if py_startswith first (lit ''*'') \<and> py_endswith first (lit ''*'') then
               (let repo = py_strip_chars (lit ''*'') first;
                    content = py_strip (py_join nl rest)
                in [Header repo False] @ (if content \<noteq> [] then [Section content] else []) @ [Divider])
             else [])
      else [])"

definition slack_blocks :: "pystr \<Rightarrow> pystr option \<Rightarrow> block list" where
  "slack_blocks message date_range_opt =
     [Header (header_text date_range_opt) True, Divider] @
     concat (map section_blocks (py_split divider message))"

text \<open>\<open>post_to_slack\<close>: nothing before the call to the platform can raise; an
  exception of the call is logged and re-raised.\<close>

definition post_to_slack :: "env \<Rightarrow> pystr \<Rightarrow> pystr option \<Rightarrow> world \<Rightarrow> (exn + unit) \<times> world" where
  "post_to_slack e message date_range_opt w =
     (let text = text_version message;
          blocks = slack_blocks message date_range_opt
      in (case chat_postMessage e w (slack_channel e) text blocks of
            Inl x \<Rightarrow> Inl x
          | Inr ts \<Rightarrow> Inr (),
          w @ [SlackPost (slack_channel e) text blocks]))"

section \<open>Orchestrator\<close>

definition error_sentence :: "pystr \<Rightarrow> exn \<Rightarrow> pystr" where
  "error_sentence repo x = lit ''*'' @ repo @ lit ''*: Error processing repository - '' @ exn_str x"

text \<open>
  The loop over the repositories, on the summaries so far. A blank name is skipped; an
  exception of the fetch becomes the error sentence; the formatter and the summarizer raise
  nothing.
\<close>

fun collect_summaries ::
  "env \<Rightarrow> int \<Rightarrow> pystr list \<Rightarrow> pystr list \<Rightarrow> world \<Rightarrow> pystr list \<times> world" where
  "collect_summaries e since [] all_summaries w = (all_summaries, w)"
| "collect_summaries e since (r # rs) all_summaries w =
     (let repo = py_strip r in
      if repo = [] then collect_summaries e since rs all_summaries w
      else
        (case get_merged_prs e repo since w of
           (Inl x, w1) \<Rightarrow> collect_summaries e since rs (all_summaries @ [error_sentence repo x]) w1
         | (Inr prs, w1) \<Rightarrow>
             if prs = [] then
               collect_summaries e since rs (all_summaries @ [no_changes_sentence repo]) w1
             else
               (case summarize_with_ai e repo (format_prs_for_summary prs) w1 of
                  (summary, w2) \<Rightarrow> collect_summaries e since rs (all_summaries @ [summary]) w2)))"

definition output_file :: pystr where
  "output_file = lit ''generated_message.txt''"

definition generate_release_notes :: "env \<Rightarrow> pystr list \<Rightarrow> int \<Rightarrow> world \<Rightarrow> (exn + unit) \<times> world" where
  "generate_release_notes e repos days_back w =
     (if repos = [] then (Inr (), w)
      else
        (case collect_summaries e (window_start e days_back) repos [] w of
           (all_summaries, w1) \<Rightarrow>
             if all_summaries \<noteq> [] then
               (let full_message = py_join (nl @ nl) all_summaries in
                case post_to_slack e full_message (Some (date_range e days_back)) w1 of
                  (Inl x, w2) \<Rightarrow> (Inl x, w2)
                | (Inr u, w2) \<Rightarrow>
                    (case file_write e w2 output_file full_message of
                       Inl x \<Rightarrow> Inl x
                     | Inr u' \<Rightarrow> Inr (),
                     w2 @ [FileWrite output_file full_message]))
             else (Inr (), w1)))"

text \<open>The tail of \<open>main\<close>: a run that raises exits with status 1.\<close>

definition exit_status :: "(exn + unit) \<Rightarrow> nat" where
  "exit_status r = (case r of Inl x \<Rightarrow> 1 | Inr u \<Rightarrow> 0)"

definition is_file_write :: "event \<Rightarrow> bool" where
  "is_file_write ev = (case ev of FileWrite n c \<Rightarrow> True | _ \<Rightarrow> False)"

definition is_header :: "block \<Rightarrow> bool" where
  "is_header b = (case b of Header t f \<Rightarrow> True | _ \<Rightarrow> False)"

definition is_divider :: "block \<Rightarrow> bool" where
  "is_divider b = (case b of Divider \<Rightarrow> True | _ \<Rightarrow> False)"

text \<open>A repository section of a blob: a section that is not blank and whose first line
  starts and ends with the emphasis marker.\<close>

definition is_repo_section :: "pystr \<Rightarrow> bool" where
  "is_repo_section section =
     (py_strip section \<noteq> [] \<and>
      (case py_split nl (py_strip section) of
         [] \<Rightarrow> False
       | first # rest \<Rightarrow> py_startswith first (lit ''*'') \<and> py_endswith first (lit ''*'')))"

definition repo_sections :: "pystr \<Rightarrow> pystr list" where
  "repo_sections message = filter is_repo_section (py_split divider message)"

section \<open>Sample inputs\<close>

text \<open>The fields of a pull request that the formatter reads.\<close>

definition formatted_fields :: "pull_request \<Rightarrow> int \<times> pystr \<times> pystr \<times> pystr list \<times> pystr" where
  "formatted_fields pr = (number pr, title pr, body pr, labels pr, url pr)"

text \<open>The structured reply of the round-trip property, its fenced form and the
  document it denotes.\<close>

definition sample_reply :: pystr where
  "sample_reply =
     lit ''{'' @ dquote @ lit ''categories'' @ dquote @ lit '':[{'' @ dquote @ lit ''name'' @ dquote @
     lit '':'' @ dquote @ lit ''Features'' @ dquote @ lit '','' @ dquote @ lit ''items'' @ dquote @
     lit '':['' @ dquote @ lit ''Added X'' @ dquote @ lit '']}]}''"

definition fenced :: "pystr \<Rightarrow> pystr" where
  "fenced payload = lit ''```json'' @ nl @ payload @ nl @ lit ''```''"

definition sample_document :: json where
  "sample_document =
     JObj [(lit ''categories'',
            JArr [JObj [(lit ''name'', JStr (lit ''Features'')),
                        (lit ''items'', JArr [JStr (lit ''Added X'')])]])]"

definition sample_summary :: "pystr \<Rightarrow> pystr" where
  "sample_summary repo =
     lit ''*'' @ repo @ lit ''*'' @ nl @
     nl @ bullet @ lit '' *Features*:'' @ nl @
     lit ''  '' @ sub_bullet @ lit '' Added X'' @ nl @
     nl @ divider @ nl"

text \<open>An environment whose services answer the same on every call.\<close>

definition stub_env ::
  "(pystr \<Rightarrow> exn + raw_pull list) \<Rightarrow> (exn + pystr option) \<Rightarrow> (exn + pystr) \<Rightarrow> env" where
  "stub_env pulls reply posted =
     \<lparr>github_pulls = (\<lambda>w repo since. pulls repo),
      provider_kind = OpenAI,
      openai_create = (\<lambda>w s u. reply),
      claude_create = (\<lambda>w c. Inl (Exn OtherError [])),
      chat_postMessage = (\<lambda>w c t b. posted),
      file_write = (\<lambda>w n c. Inr ()),
      slack_channel = lit ''#release-notes'',
      py_str = (\<lambda>v. []),
      float_truthy = (\<lambda>l. True),
      window_start = (\<lambda>d. - d),
      date_range = (\<lambda>d. lit ''01 Jan 2025 - 08 Jan 2025''),
      spare_nesting = 996,
      int_max_str_digits = 4300\<rparr>"

definition sample_pr :: pull_request where
  "sample_pr =
     \<lparr>title = lit ''Add login form'',
      body = lit ''Adds a login form to the start page.'',
      number = 12,
      url = lit ''https://example.com/acme/web/pull/12'',
      merged_at = 100,
      labels = [lit ''feature''],
      repo_name = lit ''acme/web''\<rparr>"

definition sample_raw_pull :: raw_pull where
  "sample_raw_pull =
     \<lparr>pull_title = lit ''Add login form'',
      pull_body = Some (lit ''Adds a login form to the start page.''),
      pull_number = 12,
      pull_html_url = lit ''https://example.com/acme/web/pull/12'',
      pull_merged_at = Some 100,
      pull_labels = [lit ''feature'']\<rparr>"

definition sample_text :: pystr where
  "sample_text = format_prs_for_summary [sample_pr]"

text \<open>Environments for the sample runs: a provider that answers in prose, one that
  raises, one that answers with the fenced structured reply, a chat platform that rejects
  the post, and a host that fails for one repository.\<close>

definition malformed_env :: env where
  "malformed_env =
     stub_env (\<lambda>r. Inr []) (Inr (Some (lit ''Sorry, I cannot help with that.'')))
       (Inr (lit ''1700000000.000100''))"

definition failing_provider_env :: env where
  "failing_provider_env =
     stub_env (\<lambda>r. Inr []) (Inl (Exn OtherError (lit ''connection reset'')))
       (Inr (lit ''1700000000.000100''))"

definition fenced_env :: env where
  "fenced_env =
     stub_env (\<lambda>r. Inr []) (Inr (Some (fenced sample_reply))) (Inr (lit ''1700000000.000100''))"

definition rejecting_env :: env where
  "rejecting_env =
     stub_env (\<lambda>r. Inr []) (Inr None) (Inl (Exn SlackApiError (lit ''channel_not_found'')))"

definition partial_env :: env where
  "partial_env =
     stub_env (\<lambda>r. if r = lit ''acme/web'' then Inl (Exn OtherError (lit ''404 Not Found''))
                    else Inr [sample_raw_pull])
       (Inr (Some sample_reply)) (Inr (lit ''1700000000.000100''))"

text \<open>The effects of the sample run whose post is rejected.\<close>

definition rejected_trace :: world where
  "rejected_trace =
     [GithubQuery (lit ''acme/web'') (- 7),
      SlackPost (lit ''#release-notes'')
        (text_version (no_changes_sentence (lit ''acme/web'')))
        (slack_blocks (no_changes_sentence (lit ''acme/web'')) (Some (lit ''01 Jan 2025 - 08 Jan 2025'')))]"

definition partial_message :: pystr where
  "partial_message =
     py_join (nl @ nl)
       [lit ''*acme/web*: Error processing repository - 404 Not Found'',
        sample_summary (lit ''acme/api'')]"

text \<open>The rendering of the divider in the plain-text version.\<close>

definition dashes :: pystr where
  "dashes = py_repeat (lit ''-'') 50"

text \<open>Two blobs as the orchestrator joins them: two structured summaries, and a "no
  changes" sentence followed by a structured summary.\<close>

definition two_section_blob :: pystr where
  "two_section_blob =
     py_join (nl @ nl) [sample_summary (lit ''acme/web''), sample_summary (lit ''acme/api'')]"

definition mixed_blob :: pystr where
  "mixed_blob =
     py_join (nl @ nl) [no_changes_sentence (lit ''acme/web''), sample_summary (lit ''acme/api'')]"

definition mixed_first_section :: pystr where
  "mixed_first_section =
     no_changes_sentence (lit ''acme/web'') @ nl @ nl @ lit ''*acme/api*'' @ nl @
     nl @ bullet @ lit '' *Features*:'' @ nl @
     lit ''  '' @ sub_bullet @ lit '' Added X'' @ nl @ nl"

text \<open>A reply that is not valid JSON and nests deeper than the interpreter allows:
  1100 opening brackets, with the provider that returns it.\<close>

definition deep_reply :: pystr where
  "deep_reply = replicate 1100 91"

definition deep_env :: env where
  "deep_env = stub_env (\<lambda>r. Inr []) (Inr (Some deep_reply)) (Inr (lit ''1700000000.000100''))"

text \<open>The code points of the markers that the plain-text rendering removes or rewrites;
  every other code point is ordinary text.\<close>

definition is_ordinary :: "int \<Rightarrow> bool" where
  "is_ordinary c \<longleftrightarrow> c \<notin> set (lit ''*'' @ bullet @ sub_bullet @ divider_unit)"

definition mixed_first_plain :: pystr where
  "mixed_first_plain =
     lit ''acme/web: No changes in the specified time period.'' @ nl @ nl @
     lit ''acme/api'' @ nl @ nl @
     lit ''- Features:'' @ nl @
     lit ''    - Added X'' @ nl @ nl"

section \<open>The library models on examples\<close>

lemma deps_pattern_examples:
  "deps_pattern_match (lit ''chore(deps): bump requests from 2.31 to 2.32'')"
  "deps_pattern_match (lit ''Chore(Deps) update lockfile'')"
  "deps_pattern_match (lit ''CHORE(DEP'' @ [383] @ lit '')'')"
  "\<not> deps_pattern_match (lit ''fix: chore(deps) handling'')"
  "\<not> deps_pattern_match (lit ''chore(dep)'')"
  "\<not> deps_pattern_match (lit '' chore(deps)'')"
  by code_simp+

lemma py_split_examples:
  "py_split (lit ''ab'') (lit ''xxabyyabab'') = [lit ''xx'', lit ''yy'', [], []]"
  "py_split (lit ''aa'') (lit ''aaa'') = [[], lit ''a'']"
  "py_split nl [] = [[]]"
  by code_simp+

lemma py_replace_examples:
  "py_replace (lit ''aa'') (lit ''b'') (lit ''aaa'') = lit ''ba''"
  "py_replace [] (lit ''-'') (lit ''ab'') = lit ''-a-b-''"
  "py_replace (lit ''*'') [] (lit ''*a*b'') = lit ''ab''"
  by code_simp+

lemma py_strip_examples:
  "py_strip (lit ''  a b '' @ nl) = lit ''a b''"
  "py_strip ([160, 8195] @ lit ''x'' @ [12288]) = lit ''x''"
  "py_strip_chars (lit ''*'') (lit ''**a*b*'') = lit ''a*b''"
  by code_simp+

lemma show_int_examples:
  "show_int 0 = lit ''0''" "show_int 1203 = lit ''1203''" "show_int (- 45) = lit ''-45''"
  by code_simp+

text \<open>A fence without the language tag is not removed at the start.\<close>

lemma clean_reply_examples:
  "clean_reply (lit ''json'' @ nl @ lit ''{}'') = lit ''{}''"
  "clean_reply (lit ''```json'' @ nl @ lit ''{}'' @ nl @ lit ''```'') = lit ''{}''"
  "clean_reply (lit ''```'' @ nl @ lit ''{}'' @ nl @ lit ''```'') = lit ''```'' @ nl @ lit ''{}''"
  "re_sub_fence_suffix (lit ''{} ```'' @ nl) = lit ''{}'' @ nl"
  "re_sub_fence_suffix (lit ''{}``` '') = lit ''{}``` ''"
  by code_simp+

lemma json_loads_examples:
  "json_loads 1000 4300 (lit ''[1, -2.5e3, 0, null, true, {}]'') =
     Inr (JArr [JInt 1, JFloat (lit ''-2.5e3''), JInt 0, JNull, JBool True, JObj []])"
  "json_loads 1000 4300 (lit ''[1,]'') = Inl (Exn JSONDecodeError [])"
  "json_loads 1000 4300 (lit ''01'') = Inl (Exn JSONDecodeError [])"
  "json_loads 1000 4300 (lit ''{} x'') = Inl (Exn JSONDecodeError [])"
  "json_loads 1000 4300 [] = Inl (Exn JSONDecodeError [])"
  "json_loads 1000 4300 (dquote @ lit ''a'' @ [92] @ lit ''u00e9'' @ [92] @ lit ''n'' @ dquote) =
     Inr (JStr [97, 233, 10])"
  "json_loads 1000 4300 (dquote @ [92] @ lit ''ud83d'' @ [92] @ lit ''ude00'' @ dquote) =
     Inr (JStr [128512])"
  by code_simp+

text \<open>The limits, on small values: the first failure in the text decides.\<close>

lemma json_loads_limit_examples:
  "json_loads 3 4300 (lit ''[[[]]]'') = Inr (JArr [JArr [JArr []]])"
  "json_loads 2 4300 (lit ''[[[]]]'') = Inl (Exn RecursionError [])"
  "json_loads 2 4300 (lit ''[[[x'') = Inl (Exn RecursionError [])"
  "json_loads 2 4300 (lit ''[x[['') = Inl (Exn JSONDecodeError [])"
  "json_loads 1000 3 (lit ''[123, -123, 1234.5]'') =
     Inr (JArr [JInt 123, JInt (- 123), JFloat (lit ''1234.5'')])"
  "json_loads 1000 3 (lit ''[1234'') = Inl (Exn ValueError [])"
  "json_loads 1000 3 (lit ''[1 1234'') = Inl (Exn JSONDecodeError [])"
  "json_loads 1000 0 (lit ''[1234]'') = Inr (JArr [JInt 1234])"
  by code_simp+

section \<open>Filter\<close>

lemma filter_loop_eq:
  "filter_loop prs acc =
     \<lparr>regular = regular acc @ filter (\<lambda>pr. \<not> deps_pattern_match (title pr)) prs,
      deps = deps acc @ filter (\<lambda>pr. deps_pattern_match (title pr)) prs\<rparr>"
  by (induction prs arbitrary: acc) simp_all

text \<open>
  Claim C7. The filter partitions its input: the dependency group is exactly the pull
  requests whose title matches the case-insensitive pattern \<open>chore(deps)\<close> at its start,
  in their order; the regular group is exactly the others; and every pull request is in
  one of the two groups, once (as multisets the groups add up to the input).
\<close>

theorem filter_prs_partition:
  "deps (filter_prs prs) = filter (\<lambda>pr. deps_pattern_match (title pr)) prs \<and>
   regular (filter_prs prs) = filter (\<lambda>pr. \<not> deps_pattern_match (title pr)) prs \<and>
   mset (regular (filter_prs prs)) + mset (deps (filter_prs prs)) = mset prs"
  by (simp add: filter_prs_def filter_loop_eq)

section \<open>Formatter\<close>

lemma format_pr_fields:
  "formatted_fields p = formatted_fields q \<Longrightarrow> format_pr p = format_pr q"
  by (simp add: formatted_fields_def format_pr_def Let_def)

lemma map_format_pr_fields:
  "map formatted_fields ps = map formatted_fields qs \<Longrightarrow> map format_pr ps = map format_pr qs"
proof (induction ps arbitrary: qs)
  case Nil
  then show ?case by simp
next
  case (Cons p ps)
  then obtain q qs' where q: "qs = q # qs'" by (cases qs) auto
  with Cons show ?case by (auto dest: format_pr_fields)
qed

text \<open>
  Claim C10. The formatter is a function of its input alone: two calls on the same
  sequence of pull requests yield the same text. More precisely the text depends only on
  the fields the formatter reads (number, title, body, labels, URL), so two calls on
  sequences that agree on these fields yield the same text.
\<close>

theorem format_prs_for_summary_deterministic:
  "map formatted_fields prs' = map formatted_fields prs \<Longrightarrow>
   format_prs_for_summary prs' = format_prs_for_summary prs"
  using map_format_pr_fields[of prs' prs]
  by (cases prs; cases prs') (simp_all add: format_prs_for_summary_def)

text \<open>Two sequences that differ in a field the formatter does not read.\<close>

theorem format_prs_for_summary_deterministic_witness:
  "map formatted_fields [sample_pr\<lparr>merged_at := 200\<rparr>] = map formatted_fields [sample_pr] \<and>
   format_prs_for_summary [sample_pr\<lparr>merged_at := 200\<rparr>] = format_prs_for_summary [sample_pr]"
proof -
  have h: "map formatted_fields [sample_pr\<lparr>merged_at := 200\<rparr>] = map formatted_fields [sample_pr]"
    by (simp add: formatted_fields_def)
  show ?thesis
    using h format_prs_for_summary_deterministic[OF h] by simp
qed

section \<open>Summarizer: sentinel and fallbacks\<close>

text \<open>
  Claim C6. On the empty sequence the formatter returns exactly the sentinel
  "No pull requests found."; on that sentinel the summarizer returns the fixed "no
  changes" sentence with the repository name, and the effects are unchanged: no
  completion request is made, whatever the environment.
\<close>

theorem empty_sequence_sentinel:
  "format_prs_for_summary [] = lit ''No pull requests found.'' \<and>
   summarize_with_ai e repo (format_prs_for_summary []) w =
     (lit ''*'' @ repo @ lit ''*: No changes in the specified time period.'', w)"
  by (simp add: format_prs_for_summary_def no_prs_sentinel_def summarize_with_ai_def
      no_changes_sentence_def)

lemma sample_text_value:
  "sample_text =
     lit ''PR #12: Add login form'' @ nl @
     lit ''Description: Adds a login form to the start page.'' @ nl @
     lit ''Labels: feature'' @ nl @
     lit ''URL: https://example.com/acme/web/pull/12''"
  by code_simp

lemma sample_text_nonempty: "sample_text \<noteq> []"
  by code_simp

lemma sample_text_not_sentinel: "sample_text \<noteq> no_prs_sentinel"
  by code_simp

lemma stub_generate_summary:
  "generate_summary (stub_env pulls reply posted) s u w =
     ((case reply of Inl x \<Rightarrow> Inl x
       | Inr content \<Rightarrow> Inr (normalize_summary (case content of None \<Rightarrow> [] | Some t \<Rightarrow> t))),
      w @ [ProviderCall OpenAI [s, u]])"
  by (simp add: generate_summary_def stub_env_def)

text \<open>The path the inner handler takes: a \<open>JSONDecodeError\<close> gives the raw reply after
  the repository name.\<close>

lemma decode_error_raw_fallback:
  assumes "prs_text \<noteq> []" and "prs_text \<noteq> no_prs_sentinel"
    and "generate_summary e release_notes_prompt (user_prompt_for repo prs_text) w = (Inr reply, w')"
    and "json_loads (nesting_limit e) (int_max_str_digits e) (clean_reply reply) =
           Inl (Exn JSONDecodeError m)"
  shows "summarize_with_ai e repo prs_text w = (lit ''*'' @ repo @ lit ''*:'' @ nl @ nl @ reply, w')"
  using assms
  by (simp add: summarize_with_ai_def parse_and_format_def caught_by_parse_handler_def
      raw_fallback_def)

lemma decode_error_raw_fallback_example:
  "summarize_with_ai malformed_env (lit ''acme/web'') sample_text [] =
   (lit ''*'' @ lit ''acme/web'' @ lit ''*:'' @ nl @ nl @ lit ''Sorry, I cannot help with that.'',
    [ProviderCall OpenAI [release_notes_prompt, user_prompt_for (lit ''acme/web'') sample_text]])"
proof -
  have n: "normalize_summary (lit ''Sorry, I cannot help with that.'') =
           lit ''Sorry, I cannot help with that.''"
    by code_simp
  have g: "generate_summary malformed_env
             release_notes_prompt (user_prompt_for (lit ''acme/web'') sample_text) [] =
           (Inr (lit ''Sorry, I cannot help with that.''),
            [ProviderCall OpenAI [release_notes_prompt, user_prompt_for (lit ''acme/web'') sample_text]])"
    by (simp add: malformed_env_def stub_generate_summary n)
  have j: "json_loads (nesting_limit malformed_env) (int_max_str_digits malformed_env)
             (clean_reply (lit ''Sorry, I cannot help with that.'')) =
           Inl (Exn JSONDecodeError [])"
    by code_simp
  show ?thesis
    by (rule decode_error_raw_fallback[OF sample_text_nonempty sample_text_not_sentinel g j])
qed

text \<open>A run of opening brackets: its tokens, and the automaton on them.\<close>

lemma lex_brackets: "lex d (replicate n 91) = replicate n TLBracket"
  by (induction n) simp_all

lemma pda_run_brackets_overflow:
  assumes "st = EValue \<or> st = EValueOrClose"
    and "int (length stk) \<le> limit" and "limit < int (length stk) + int n"
  shows "pda_run limit (st, stk) (replicate n TLBracket) = Inl RecursionError"
  using assms
proof (induction n arbitrary: st stk)
  case 0
  then show ?case by simp
next
  case (Suc n)
  show ?case
  proof (cases "int (length stk) < limit")
    case True
    have step: "pda_step limit (st, stk) TLBracket = Inr (EValueOrClose, FArr [] # stk)"
      using Suc(2) True by (auto simp: pda_step_def start_value_def)
    have "pda_run limit (EValueOrClose, FArr [] # stk) (replicate n TLBracket) = Inl RecursionError"
      using Suc(1)[of EValueOrClose "FArr [] # stk"] True Suc(4) by simp
    then show ?thesis using step by simp
  next
    case False
    then have "pda_step limit (st, stk) TLBracket = Inl RecursionError"
      using Suc(2) by (auto simp: pda_step_def start_value_def)
    then show ?thesis by simp
  qed
qed

lemma pda_run_brackets_fit:
  assumes "st = EValue \<or> st = EValueOrClose"
    and "int (length stk) + int n \<le> limit"
  shows "pda_run limit (st, stk) (replicate n TLBracket) =
           Inr (if n = 0 then st else EValueOrClose, replicate n (FArr []) @ stk)"
  using assms
proof (induction n arbitrary: st stk)
  case 0
  then show ?case by simp
next
  case (Suc n)
  have step: "pda_step limit (st, stk) TLBracket = Inr (EValueOrClose, FArr [] # stk)"
    using Suc(2,3) by (auto simp: pda_step_def start_value_def)
  have "pda_run limit (EValueOrClose, FArr [] # stk) (replicate n TLBracket) =
          Inr (if n = 0 then EValueOrClose else EValueOrClose, replicate n (FArr []) @ FArr [] # stk)"
    using Suc(1)[of EValueOrClose "FArr [] # stk"] Suc(3) by simp
  then show ?case using step by (simp add: replicate_append_same)
qed

text \<open>Brackets deeper than the limit raise \<open>RecursionError\<close>; within the limit the
  text is a \<open>JSONDecodeError\<close>, for it ends inside an array: it is not valid JSON.\<close>

lemma json_loads_brackets_overflow:
  "0 \<le> limit \<Longrightarrow> limit < int n \<Longrightarrow>
   json_loads limit d (replicate n 91) = Inl (Exn RecursionError [])"
  using pda_run_brackets_overflow[of EValue "[]" limit n]
  by (simp add: json_loads_def lex_brackets)

lemma json_loads_brackets_fit:
  "int n \<le> limit \<Longrightarrow> json_loads limit d (replicate n 91) = Inl (Exn JSONDecodeError [])"
  using pda_run_brackets_fit[of EValue "[]" n limit]
  by (cases n) (simp_all add: json_loads_def lex_brackets)

lemma not_space_bracket: "\<not> py_isspace 91"
  by (simp add: py_isspace_def)

lemma py_strip_brackets: "py_strip (replicate n 91) = replicate n 91"
  by (cases n) (simp_all add: py_strip_def py_lstrip_def py_rstrip_def not_space_bracket
      flip: replicate_Suc)

lemma clean_reply_empty: "clean_reply [] = []"
  by code_simp

lemma clean_reply_brackets: "clean_reply (replicate n 91) = replicate n 91"
proof (cases n)
  case 0
  then show ?thesis by (simp add: clean_reply_empty)
next
  case (Suc m)
  have 1: "re_sub_prefix (lit ''json'') (replicate (Suc m) 91) = replicate (Suc m) 91"
    by (simp add: re_sub_prefix_def lit_def)
  have 2: "re_sub_prefix (lit ''```json'') (replicate (Suc m) 91) = replicate (Suc m) 91"
    by (simp add: re_sub_prefix_def lit_def)
  have l: "rev (replicate (Suc m) (91::int)) = 91 # replicate m 91"
    by (metis rev_replicate replicate_Suc)
  have f1: "\<not> suffix nl (replicate (Suc m) 91)"
    unfolding suffix_to_prefix l by (simp add: nl_def)
  have f2: "\<not> suffix (lit ''```'') (replicate (Suc m) 91)"
    unfolding suffix_to_prefix l by (simp add: lit_def)
  have 3: "re_sub_fence_suffix (replicate (Suc m) 91) = replicate (Suc m) 91"
    by (simp only: re_sub_fence_suffix_def f1 f2 Let_def if_False)
  show ?thesis
    unfolding clean_reply_def Suc py_strip_brackets 1 2 3 ..
qed

text \<open>On a reply of more opening brackets than the limit allows, the summarizer takes
  the outer handler: it returns the count sentence.\<close>

lemma deep_reply_count_fallback:
  assumes "prs_text \<noteq> []" and "prs_text \<noteq> no_prs_sentinel"
    and "generate_summary e release_notes_prompt (user_prompt_for repo prs_text) w =
           (Inr (replicate n 91), w')"
    and "nesting_limit e < int n"
  shows "summarize_with_ai e repo prs_text w = (count_fallback repo prs_text, w')"
proof -
  have "0 \<le> nesting_limit e" by (simp add: nesting_limit_def)
  then have "json_loads (nesting_limit e) (int_max_str_digits e) (clean_reply (replicate n 91)) =
               Inl (Exn RecursionError [])"
    using assms(4) by (simp add: clean_reply_brackets json_loads_brackets_overflow)
  then show ?thesis
    using assms(1-3)
    by (simp add: summarize_with_ai_def parse_and_format_def caught_by_parse_handler_def)
qed

lemma deep_env_generate:
  "generate_summary deep_env release_notes_prompt (user_prompt_for (lit ''acme/web'') sample_text) [] =
     (Inr (replicate 1100 91),
      [ProviderCall OpenAI [release_notes_prompt, user_prompt_for (lit ''acme/web'') sample_text]])"
proof -
  have "normalize_summary (replicate (Suc 1099) 91) = replicate (Suc 1099) 91"
    unfolding normalize_summary_def py_strip_brackets by simp
  then have "normalize_summary (replicate 1100 91) = replicate 1100 91"
    by simp
  then show ?thesis
    by (simp add: deep_env_def deep_reply_def stub_generate_summary)
qed

lemma sample_count_sentence:
  "count_fallback (lit ''acme/web'') sample_text =
     lit ''*acme/web*: 1 pull requests merged. See individual PRs for details.''"
  by code_simp

text \<open>
  Claim C5 fails on the code. The reply of 1100 opening brackets is not valid JSON (with
  room for its nesting the parser stops on a \<open>JSONDecodeError\<close>), yet with the
  interpreter's limit of 1000 open containers the parser raises \<open>RecursionError\<close>, which
  the inner handler does not name: the summarizer returns the count-only sentence, not
  the raw reply after the repository name.
\<close>

theorem deep_malformed_reply_takes_count_fallback:
  "json_loads 2000 4300 (clean_reply deep_reply) = Inl (Exn JSONDecodeError []) \<and>
   json_loads (nesting_limit deep_env) (int_max_str_digits deep_env) (clean_reply deep_reply) =
     Inl (Exn RecursionError []) \<and>
   summarize_with_ai deep_env (lit ''acme/web'') sample_text [] =
     (lit ''*acme/web*: 1 pull requests merged. See individual PRs for details.'',
      [ProviderCall OpenAI [release_notes_prompt, user_prompt_for (lit ''acme/web'') sample_text]]) \<and>
   fst (summarize_with_ai deep_env (lit ''acme/web'') sample_text []) \<noteq>
     lit ''*'' @ lit ''acme/web'' @ lit ''*:'' @ nl @ nl @ deep_reply"
proof -
  have l: "nesting_limit deep_env = 1000"
    by (simp add: nesting_limit_def deep_env_def stub_env_def)
  have a: "json_loads 2000 4300 (clean_reply deep_reply) = Inl (Exn JSONDecodeError [])"
    by (simp add: deep_reply_def clean_reply_brackets json_loads_brackets_fit)
  have b: "json_loads (nesting_limit deep_env) (int_max_str_digits deep_env)
             (clean_reply deep_reply) = Inl (Exn RecursionError [])"
    by (simp add: l deep_reply_def clean_reply_brackets json_loads_brackets_overflow)
  have c: "summarize_with_ai deep_env (lit ''acme/web'') sample_text [] =
     (lit ''*acme/web*: 1 pull requests merged. See individual PRs for details.'',
      [ProviderCall OpenAI [release_notes_prompt, user_prompt_for (lit ''acme/web'') sample_text]])"
    using deep_reply_count_fallback[OF sample_text_nonempty sample_text_not_sentinel
        deep_env_generate] l
    by (simp add: sample_count_sentence)
  have d: "lit ''*acme/web*: 1 pull requests merged. See individual PRs for details.'' \<noteq>
           lit ''*'' @ lit ''acme/web'' @ lit ''*:'' @ nl @ nl @ deep_reply"
    by (simp add: lit_def nl_def)
  show ?thesis using a b c d by simp
qed

lemma py_split_not_Nil: "py_split sep s \<noteq> []"
  by (induction sep s rule: py_split.induct) (auto split: list.splits)

text \<open>The marker \<open>PR #\<close> cannot overlap itself, so splitting on it yields one piece more
  than it has occurrences.\<close>

lemma pr_marker_split_count:
  "length (py_split (lit ''PR #'') s) = occurrences (lit ''PR #'') s + 1"
proof (induction "lit ''PR #''" s rule: py_split.induct)
  case 1
  then show ?case by simp
next
  case (2 x xs)
  show ?case
  proof (cases "prefix (lit ''PR #'') (x # xs)")
    case True
    then obtain rest where r: "x # xs = lit ''PR #'' @ rest"
      by (auto simp: prefix_def)
    then have xs: "xs = [82, 32, 35] @ rest" and x: "x = 80"
      by (simp_all add: lit_def)
    have "length (py_split (lit ''PR #'') (drop (length (lit ''PR #'') - 1) xs)) =
          occurrences (lit ''PR #'') (drop (length (lit ''PR #'') - 1) xs) + 1"
      using 2(1)[OF True] .
    moreover have "drop (length (lit ''PR #'') - 1) xs = rest"
      using xs by (simp add: lit_def)
    moreover have "occurrences (lit ''PR #'') (x # xs) = 1 + occurrences (lit ''PR #'') rest"
      using True xs by (simp add: lit_def)
    ultimately show ?thesis using True by simp
  next
    case False
    have ih: "length (py_split (lit ''PR #'') xs) = occurrences (lit ''PR #'') xs + 1"
      using 2(2)[OF False] .
    then show ?thesis using False
      by (cases "py_split (lit ''PR #'') xs") simp_all
  qed
qed

lemma show_int_of_nat: "show_int (int n) = show_nat n"
  by (simp add: show_int_def)

text \<open>
  Claim C8. On a text that is neither empty nor the sentinel, when the call to the
  provider raises, the summarizer returns the count-only sentence: the repository name and
  the number of occurrences of the marker \<open>PR #\<close> in the text. It returns a text: no
  exception reaches the caller.
\<close>

theorem provider_failure_count_fallback:
  assumes "prs_text \<noteq> []" and "prs_text \<noteq> no_prs_sentinel"
    and "generate_summary e release_notes_prompt (user_prompt_for repo prs_text) w = (Inl x, w')"
  shows "summarize_with_ai e repo prs_text w =
           (lit ''*'' @ repo @ lit ''*: '' @ show_nat (occurrences (lit ''PR #'') prs_text) @
            lit '' pull requests merged. See individual PRs for details.'', w')"
  using assms
  by (simp add: summarize_with_ai_def count_fallback_def pr_marker_split_count show_int_of_nat
      del: show_nat.simps)

text \<open>A provider that raises, on a text with one marker.\<close>

theorem provider_failure_count_fallback_witness:
  "summarize_with_ai failing_provider_env (lit ''acme/web'') sample_text [] =
   (lit ''*acme/web*: 1 pull requests merged. See individual PRs for details.'',
    [ProviderCall OpenAI [release_notes_prompt, user_prompt_for (lit ''acme/web'') sample_text]])"
proof -
  have g: "generate_summary failing_provider_env
             release_notes_prompt (user_prompt_for (lit ''acme/web'') sample_text) [] =
           (Inl (Exn OtherError (lit ''connection reset'')),
            [ProviderCall OpenAI [release_notes_prompt, user_prompt_for (lit ''acme/web'') sample_text]])"
    by (simp add: failing_provider_env_def stub_generate_summary)
  have c: "lit ''*'' @ lit ''acme/web'' @ lit ''*: '' @ show_nat (occurrences (lit ''PR #'') sample_text) @
           lit '' pull requests merged. See individual PRs for details.'' =
           lit ''*acme/web*: 1 pull requests merged. See individual PRs for details.''"
    by code_simp
  show ?thesis
    using provider_failure_count_fallback[OF sample_text_nonempty sample_text_not_sentinel g]
    unfolding c .
qed

section \<open>Summarizer: the structured reply\<close>

lemma clean_sample: "clean_reply sample_reply = sample_reply"
  by code_simp

lemma clean_fenced_sample: "clean_reply (fenced sample_reply) = sample_reply"
  by code_simp

lemma lex_sample:
  "lex d sample_reply =
     [TLBrace, TAtom (JStr (lit ''categories'')), TColon, TLBracket,
      TLBrace, TAtom (JStr (lit ''name'')), TColon, TAtom (JStr (lit ''Features'')), TComma,
      TAtom (JStr (lit ''items'')), TColon, TLBracket, TAtom (JStr (lit ''Added X'')),
      TRBracket, TRBrace, TRBracket, TRBrace]"
  by code_simp

text \<open>The reply nests four containers, which every environment has room for.\<close>

lemma loads_sample_tokens:
  "json_loads (nesting_limit e) d sample_reply = Inr sample_document"
  by (simp add: json_loads_def lex_sample nesting_limit_def pda_step_def start_value_def
      complete_def close_container_def sample_document_def)

lemma loads_sample:
  "json_loads (nesting_limit e) (int_max_str_digits e) (clean_reply sample_reply) =
     Inr sample_document"
  by (simp add: clean_sample loads_sample_tokens)

lemma loads_fenced_sample:
  "json_loads (nesting_limit e) (int_max_str_digits e) (clean_reply (fenced sample_reply)) =
     Inr sample_document"
  by (simp add: clean_fenced_sample loads_sample_tokens)

lemma format_sample_document:
  "json_loads (nesting_limit e) (int_max_str_digits e) (clean_reply reply) = Inr sample_document \<Longrightarrow>
   parse_and_format e repo reply = Inr (sample_summary repo)"
  by (simp add: parse_and_format_def sample_document_def format_category_def dict_get_def
      format_item_def sample_summary_def lit_def)

text \<open>
  Claim C4. When the provider's reply is the structured reply
  \<open>{"categories":[{"name":"Features","items":["Added X"]}]}\<close>, bare or inside a fenced code
  block tagged \<open>json\<close>, the summarizer returns the text made of a first line with the
  repository name between emphasis markers, a blank line, the category line with
  \<open>Features\<close>, the indented bullet line with \<open>Added X\<close>, a blank line and the divider line.
\<close>

theorem structured_reply_round_trip:
  assumes "prs_text \<noteq> []" and "prs_text \<noteq> no_prs_sentinel"
    and "generate_summary e release_notes_prompt (user_prompt_for repo prs_text) w = (Inr reply, w')"
    and "reply = sample_reply \<or> reply = fenced sample_reply"
  shows "summarize_with_ai e repo prs_text w =
           (lit ''*'' @ repo @ lit ''*'' @ nl @
            nl @ bullet @ lit '' *Features*:'' @ nl @
            lit ''  '' @ sub_bullet @ lit '' Added X'' @ nl @
            nl @ divider @ nl, w')"
proof -
  have "json_loads (nesting_limit e) (int_max_str_digits e) (clean_reply reply) =
          Inr sample_document"
    using assms(4) loads_sample loads_fenced_sample by auto
  then have "parse_and_format e repo reply = Inr (sample_summary repo)"
    by (rule format_sample_document)
  then show ?thesis
    using assms(1-3) by (simp add: summarize_with_ai_def sample_summary_def)
qed

text \<open>The fenced reply, through the adapter and the summarizer.\<close>

theorem structured_reply_round_trip_witness:
  "summarize_with_ai fenced_env (lit ''acme/web'') sample_text [] =
   (lit ''*'' @ lit ''acme/web'' @ lit ''*'' @ nl @
    nl @ bullet @ lit '' *Features*:'' @ nl @
    lit ''  '' @ sub_bullet @ lit '' Added X'' @ nl @
    nl @ divider @ nl,
    [ProviderCall OpenAI [release_notes_prompt, user_prompt_for (lit ''acme/web'') sample_text]])"
proof -
  have n: "normalize_summary (fenced sample_reply) = fenced sample_reply"
    by code_simp
  have g: "generate_summary fenced_env
             release_notes_prompt (user_prompt_for (lit ''acme/web'') sample_text) [] =
           (Inr (fenced sample_reply),
            [ProviderCall OpenAI [release_notes_prompt, user_prompt_for (lit ''acme/web'') sample_text]])"
    by (simp add: fenced_env_def stub_generate_summary n)
  have r: "fenced sample_reply = sample_reply \<or> fenced sample_reply = fenced sample_reply"
    by simp
  show ?thesis
    by (rule structured_reply_round_trip[OF sample_text_nonempty sample_text_not_sentinel g r])
qed

section \<open>Publisher: block counts\<close>

lemma section_blocks_repo:
  "is_repo_section s \<Longrightarrow>
   length (filter is_header (section_blocks s)) = 1 \<and>
   length (filter is_divider (section_blocks s)) = 1"
  by (auto simp: is_repo_section_def section_blocks_def Let_def is_header_def is_divider_def
      split: list.splits)

lemma section_blocks_other: "\<not> is_repo_section s \<Longrightarrow> section_blocks s = []"
  by (auto simp: is_repo_section_def section_blocks_def Let_def split: list.splits)

lemma count_section_blocks:
  "length (filter is_header (concat (map section_blocks secs))) = length (filter is_repo_section secs) \<and>
   length (filter is_divider (concat (map section_blocks secs))) = length (filter is_repo_section secs)"
proof (induction secs)
  case Nil
  then show ?case by simp
next
  case (Cons s secs)
  then show ?case
    using section_blocks_repo[of s] section_blocks_other[of s]
    by (cases "is_repo_section s") simp_all
qed

text \<open>
  Claim C3. For a blob with \<open>n\<close> repository sections (sections that are not blank and
  whose first line starts and ends with the emphasis marker), the block sequence has
  \<open>1 + n\<close> header blocks (the overall title and one per repository section) and \<open>n + 1\<close>
  divider blocks; in particular 3 and 3 for a blob with two repository sections.
\<close>

theorem block_counts:
  "length (repo_sections message) = n \<Longrightarrow>
   length (filter is_header (slack_blocks message date_range_opt)) = 1 + n \<and>
   length (filter is_divider (slack_blocks message date_range_opt)) = n + 1"
  using count_section_blocks[of "py_split divider message"]
  by (simp add: slack_blocks_def repo_sections_def is_header_def is_divider_def)

lemma two_section_blob_sections: "length (repo_sections two_section_blob) = 2"
  by code_simp

text \<open>The blob of two structured summaries has two repository sections.\<close>

theorem block_counts_witness:
  "length (repo_sections two_section_blob) = 2 \<and>
   length (filter is_header
     (slack_blocks two_section_blob (Some (lit ''01 Jan 2025 - 08 Jan 2025'')))) = 1 + 2 \<and>
   length (filter is_divider
     (slack_blocks two_section_blob (Some (lit ''01 Jan 2025 - 08 Jan 2025'')))) = 2 + 1"
  using two_section_blob_sections block_counts[OF two_section_blob_sections]
  by blast

section \<open>Publisher: splitting, joining and the plain-text version\<close>

lemma py_join_Cons_head: "py_join sep ((x # p) # ps) = x # py_join sep (p # ps)"
  by (cases ps) simp_all

lemma py_join_Nil_head: "ps \<noteq> [] \<Longrightarrow> py_join sep ([] # ps) = sep @ py_join sep ps"
  by (cases ps) simp_all

text \<open>Joining the pieces of a split with the separator gives the text back.\<close>

lemma py_join_split: "sep \<noteq> [] \<Longrightarrow> py_join sep (py_split sep s) = s"
proof (induction sep s rule: py_split.induct)
  case (1 sep)
  then show ?case by simp
next
  case (2 sep x xs)
  show ?case
  proof (cases "prefix sep (x # xs)")
    case True
    then obtain rest where r: "x # xs = sep @ rest" by (auto simp: prefix_def)
    from 2(3) obtain s0 sep' where sep: "sep = s0 # sep'" by (cases sep) auto
    have d: "drop (length sep - 1) xs = rest" using r sep by simp
    have "py_join sep (py_split sep (drop (length sep - 1) xs)) = drop (length sep - 1) xs"
      using 2(1)[OF True 2(3)] .
    then have ih: "py_join sep (py_split sep rest) = rest" using d by simp
    have s: "py_split sep (x # xs) = [] # py_split sep rest" using True d by simp
    have "py_join sep ([] # py_split sep rest) = sep @ rest"
      using ih by (simp add: py_join_Nil_head py_split_not_Nil)
    then have "py_join sep (py_split sep (x # xs)) = sep @ rest"
      by (simp only: s)
    then show ?thesis by (simp only: r)
  next
    case False
    have ih: "py_join sep (py_split sep xs) = xs" using 2(2)[OF False 2(3)] .
    obtain p ps where p: "py_split sep xs = p # ps"
      using py_split_not_Nil[of sep xs] by (cases "py_split sep xs") auto
    show ?thesis using False ih p by (simp add: py_join_Cons_head)
  qed
qed

text \<open>
  \<open>replace\<close> distributes over a concatenation when no occurrence of the pattern can
  straddle the boundary: the second part is empty, or its first code point occurs nowhere
  in the pattern after the pattern's first position.
\<close>

lemma py_replace_append:
  assumes "old \<noteq> []" and "ys = [] \<or> hd ys \<notin> set (tl old)"
  shows "py_replace old new (xs @ ys) = py_replace old new xs @ py_replace old new ys"
  using assms
proof (induction old new xs rule: py_replace.induct)
  case (1 old new)
  then show ?case by simp
next
  case (2 old new x xs)
  show ?case
  proof (cases "prefix old (x # xs)")
    case True
    then have le: "length old \<le> Suc (length xs)"
      using prefix_length_le by fastforce
    have t2: "prefix old (x # xs @ ys)" using True
      by (metis append_Cons prefix_prefix)
    have "py_replace old new (drop (length old - 1) xs @ ys) =
          py_replace old new (drop (length old - 1) xs) @ py_replace old new ys"
      using 2(2)[OF 2(4) True 2(4) 2(5)] .
    moreover have "drop (length old - 1) (xs @ ys) = drop (length old - 1) xs @ ys"
      using le by simp
    ultimately show ?thesis using True t2 2(4) by simp
  next
    case False
    have nf: "\<not> prefix old (x # xs @ ys)"
    proof
      assume p: "prefix old (x # xs @ ys)"
      then obtain zs where z: "(x # xs) @ ys = old @ zs" by (auto simp: prefix_def)
      have "length old > length (x # xs)"
      proof (rule ccontr)
        assume "\<not> length (x # xs) < length old"
        then have "length old \<le> length (x # xs)" by simp
        then have "prefix old (x # xs)"
          using z by (metis prefix_def append_eq_append_conv_if prefix_order.dual_order.refl
              take_is_prefix)
        with False show False by simp
      qed
      then obtain b where b: "old = (x # xs) @ b" "b \<noteq> []" "prefix b ys"
        using z by (metis append_eq_append_conv_if append_eq_conv_conj length_0_conv
            less_irrefl_nat prefix_def drop_eq_Nil linorder_not_less)
      then have "ys \<noteq> []" and "hd ys = hd b"
        by (auto simp: prefix_def)
      moreover have "hd b \<in> set (tl old)" using b by auto
      ultimately show False using 2(5) by auto
    qed
    have "py_replace old new (xs @ ys) = py_replace old new xs @ py_replace old new ys"
      using 2(3)[OF 2(4) False 2(4) 2(5)] .
    then show ?thesis using False nf 2(4) by simp
  qed
qed

lemma divider_head: "divider @ ys \<noteq> [] \<and> hd (divider @ ys) = 226"
  by (simp add: divider_def py_repeat_def divider_unit_def numeral_eq_Suc)

lemma divider_nonempty: "divider \<noteq> []"
  using divider_head[of "[]"] by simp

text \<open>The four replacements on a run of divider units.\<close>

lemma replace_star_units:
  "py_replace (lit ''*'') [] (py_repeat divider_unit n @ ys) =
   py_repeat divider_unit n @ py_replace (lit ''*'') [] ys"
  by (induction n) (simp_all add: py_repeat_def divider_unit_def lit_def)

lemma replace_bullet_units:
  "py_replace bullet (lit ''-'') (py_repeat divider_unit n @ ys) =
   py_repeat divider_unit n @ py_replace bullet (lit ''-'') ys"
  by (induction n) (simp_all add: py_repeat_def divider_unit_def bullet_def lit_def)

lemma replace_sub_bullet_units:
  "py_replace sub_bullet (lit ''  -'') (py_repeat divider_unit n @ ys) =
   py_repeat divider_unit n @ py_replace sub_bullet (lit ''  -'') ys"
  by (induction n) (simp_all add: py_repeat_def divider_unit_def sub_bullet_def lit_def)

lemma replace_unit_units:
  "py_replace divider_unit (lit ''-'') (py_repeat divider_unit n @ ys) =
   py_repeat (lit ''-'') n @ py_replace divider_unit (lit ''-'') ys"
  by (induction n) (simp_all add: py_repeat_def divider_unit_def lit_def)

lemma replace_around_divider:
  assumes "old \<noteq> []" and "226 \<notin> set (tl old)"
  shows "py_replace old new (xs @ divider @ ys) =
         py_replace old new xs @ py_replace old new (divider @ ys)"
  using py_replace_append[where old=old and ys="divider @ ys" and new=new and xs=xs] assms
    divider_head[of ys] by simp

text \<open>The plain-text version of a text around a divider: the versions of the two parts
  around fifty dashes.\<close>

lemma text_version_divider:
  "text_version (xs @ divider @ ys) = text_version xs @ dashes @ text_version ys"
proof -
  have 1: "py_replace (lit ''*'') [] (xs @ divider @ ys) =
           py_replace (lit ''*'') [] xs @ divider @ py_replace (lit ''*'') [] ys"
    using replace_around_divider[where old="lit ''*''" and xs=xs and ys=ys and new="[]"]
      replace_star_units[of 50 ys]
    by (simp add: lit_def divider_def)
  have 2: "py_replace bullet (lit ''-'') (a @ divider @ b) =
           py_replace bullet (lit ''-'') a @ divider @ py_replace bullet (lit ''-'') b" for a b
    using replace_around_divider[where old=bullet and xs=a and ys=b and new="lit ''-''"]
      replace_bullet_units[of 50 b]
    by (simp add: bullet_def divider_def)
  have 3: "py_replace sub_bullet (lit ''  -'') (a @ divider @ b) =
           py_replace sub_bullet (lit ''  -'') a @ divider @
           py_replace sub_bullet (lit ''  -'') b" for a b
    using replace_around_divider[where old=sub_bullet and xs=a and ys=b and new="lit ''  -''"]
      replace_sub_bullet_units[of 50 b]
    by (simp add: sub_bullet_def divider_def)
  have 4: "py_replace divider_unit (lit ''-'') (a @ divider @ b) =
           py_replace divider_unit (lit ''-'') a @ dashes @
           py_replace divider_unit (lit ''-'') b" for a b
    using replace_around_divider[where old=divider_unit and xs=a and ys=b and new="lit ''-''"]
      replace_unit_units[of 50 b]
    by (simp add: divider_unit_def divider_def dashes_def)
  show ?thesis
    by (simp only: text_version_def 1 2 3 4)
qed

lemma text_version_join:
  "text_version (py_join divider secs) = py_join dashes (map text_version secs)"
proof (induction divider secs rule: py_join.induct)
  case 1
  then show ?case
    by (simp add: text_version_def lit_def bullet_def sub_bullet_def divider_unit_def)
next
  case (2 x)
  then show ?case by simp
next
  case (3 x y ys)
  then show ?case by (simp add: text_version_divider)
qed

lemma py_join_contains:
  "s \<in> set secs \<Longrightarrow> \<exists>a b. py_join sep secs = a @ s @ b"
proof (induction sep secs rule: py_join.induct)
  case (1 sep)
  then show ?case by simp
next
  case (2 sep x)
  then have "py_join sep [x] = [] @ s @ []" by simp
  then show ?case by blast
next
  case (3 sep x y ys)
  show ?case
  proof (cases "s = x")
    case True
    then have "py_join sep (x # y # ys) = [] @ s @ (sep @ py_join sep (y # ys))" by simp
    then show ?thesis by blast
  next
    case False
    then have "s \<in> set (y # ys)" using 3(2) by simp
    then obtain a b where "py_join sep (y # ys) = a @ s @ b" using 3(1) by blast
    then have "py_join sep (x # y # ys) = (x @ sep @ a) @ s @ b" by simp
    then show ?thesis by blast
  qed
qed

text \<open>The plain-text version of the message contains the version of each section.\<close>

lemma text_version_contains_section:
  assumes "s \<in> set (py_split divider message)"
  shows "\<exists>a b. text_version message = a @ text_version s @ b"
proof -
  have "text_version message = py_join dashes (map text_version (py_split divider message))"
    using text_version_join[of "py_split divider message"]
      py_join_split[OF divider_nonempty, of message]
    by simp
  moreover have "text_version s \<in> set (map text_version (py_split divider message))"
    using assms by simp
  ultimately show ?thesis using py_join_contains by metis
qed

lemma concat_map_drop_empty:
  "f s = [] \<Longrightarrow> concat (map f (filter (\<lambda>t. t \<noteq> s) xs)) = concat (map f xs)"
  by (induction xs) auto

text \<open>\<open>replace\<close> keeps, in their order, the code points outside the pattern.\<close>

lemma py_replace_keeps:
  assumes "old \<noteq> []" and "\<forall>c\<in>set old. \<not> P c"
  shows "subseq (filter P s) (py_replace old new s)"
  using assms
proof (induction old new s rule: py_replace.induct)
  case (1 old new)
  then show ?case by simp
next
  case (2 old new x xs)
  show ?case
  proof (cases "prefix old (x # xs)")
    case True
    then obtain rest where r: "x # xs = old @ rest" by (auto simp: prefix_def)
    from 2(4) obtain o0 old' where o: "old = o0 # old'" by (cases old) auto
    have d: "drop (length old - 1) xs = rest" using r o by simp
    have "filter P old = []" using 2(5) by (induction old) auto
    then have f: "filter P (x # xs) = filter P rest"
      by (simp only: r filter_append) simp
    have "subseq (filter P rest) (py_replace old new rest)"
      using 2(2)[OF 2(4) True 2(4) 2(5)] d by simp
    then have "subseq (filter P rest) (new @ py_replace old new rest)"
      by (simp add: list_emb_append2)
    then show ?thesis using True 2(4) d f by simp
  next
    case False
    have "subseq (filter P xs) (py_replace old new xs)"
      using 2(3)[OF 2(4) False 2(4) 2(5)] .
    then show ?thesis using False 2(4) by auto
  qed
qed

lemma subseq_filter_step:
  assumes "subseq (filter P s) t" and "subseq (filter P t) u"
  shows "subseq (filter P s) u"
proof -
  have "subseq (filter P (filter P s)) (filter P t)"
    using assms(1) by (rule subseq_filter)
  then have "subseq (filter P s) (filter P t)" by simp
  then show ?thesis using assms(2) by (rule subseq_order.trans)
qed

text \<open>The plain-text version keeps every ordinary code point of a text, in order.\<close>

lemma text_version_keeps: "subseq (filter is_ordinary s) (text_version s)"
proof -
  have 1: "subseq (filter is_ordinary t) (py_replace (lit ''*'') [] t)" for t
    by (rule py_replace_keeps) (simp_all add: is_ordinary_def lit_def)
  have 2: "subseq (filter is_ordinary t) (py_replace bullet (lit ''-'') t)" for t
    by (rule py_replace_keeps) (simp_all add: is_ordinary_def bullet_def)
  have 3: "subseq (filter is_ordinary t) (py_replace sub_bullet (lit ''  -'') t)" for t
    by (rule py_replace_keeps) (simp_all add: is_ordinary_def sub_bullet_def)
  have 4: "subseq (filter is_ordinary t) (py_replace divider_unit (lit ''-'') t)" for t
    by (rule py_replace_keeps) (simp_all add: is_ordinary_def divider_unit_def)
  show ?thesis
    unfolding text_version_def
    by (rule subseq_filter_step[OF subseq_filter_step[OF subseq_filter_step[OF 1 2] 3] 4])
qed

text \<open>
  Claim C9. A section of the split blob that is not blank and whose first line does not
  both start and end with the emphasis marker appends no block: the block sequence is the
  one built from the other sections. Its content is in the plain-text fallback that is
  posted with the blocks: the fallback of the message contains the plain-text version of
  the section as one piece, and that version keeps every code point of the section
  outside the markers, in order.
\<close>

theorem unwrapped_section_contributes_no_block:
  assumes "section \<in> set (py_split divider message)"
    and "py_strip section \<noteq> []"
    and "\<not> (py_startswith (hd (py_split nl (py_strip section))) (lit ''*'') \<and>
            py_endswith (hd (py_split nl (py_strip section))) (lit ''*''))"
  shows "section_blocks section = [] \<and>
         slack_blocks message date_range_opt =
           [Header (header_text date_range_opt) True, Divider] @
           concat (map section_blocks (filter (\<lambda>s. s \<noteq> section) (py_split divider message))) \<and>
         (\<exists>a b. text_version message = a @ text_version section @ b) \<and>
         subseq (filter is_ordinary section) (text_version section) \<and>
         snd (post_to_slack e message date_range_opt w) =
           w @ [SlackPost (slack_channel e) (text_version message)
                  (slack_blocks message date_range_opt)]"
proof -
  have "\<not> is_repo_section section"
    using assms(3) by (auto simp: is_repo_section_def split: list.splits)
  then have e: "section_blocks section = []" by (rule section_blocks_other)
  have b: "slack_blocks message date_range_opt =
          [Header (header_text date_range_opt) True, Divider] @
          concat (map section_blocks (filter (\<lambda>s. s \<noteq> section) (py_split divider message)))"
    using concat_map_drop_empty[where f=section_blocks and s="section"
        and xs="py_split divider message"] e
    by (simp add: slack_blocks_def)
  have p: "snd (post_to_slack e message date_range_opt w) =
           w @ [SlackPost (slack_channel e) (text_version message)
                  (slack_blocks message date_range_opt)]"
    by (simp add: post_to_slack_def Let_def)
  show ?thesis
    using e b p text_version_contains_section[OF assms(1)] text_version_keeps[of "section"]
    by blast
qed

lemma mixed_blob_split: "py_split divider mixed_blob = [mixed_first_section, nl]"
  by code_simp

lemma mixed_first_nonblank: "py_strip mixed_first_section \<noteq> []"
  by code_simp

lemma mixed_first_unwrapped:
  "\<not> (py_startswith (hd (py_split nl (py_strip mixed_first_section))) (lit ''*'') \<and>
      py_endswith (hd (py_split nl (py_strip mixed_first_section))) (lit ''*''))"
  by code_simp

lemma mixed_blob_blocks: "slack_blocks mixed_blob None = [Header (header_text None) True, Divider]"
  by code_simp

lemma mixed_first_text_version: "text_version mixed_first_section = mixed_first_plain"
  by code_simp

text \<open>A "no changes" sentence before a structured summary: the two form one section,
  whose first line ends in other text. The payload has the title blocks only, and the
  fallback contains the text of both entries without the markers.\<close>

theorem unwrapped_section_contributes_no_block_witness:
  "section_blocks mixed_first_section = [] \<and>
   slack_blocks mixed_blob None = [Header (header_text None) True, Divider] \<and>
   (\<exists>a b. text_version mixed_blob = a @ mixed_first_plain @ b) \<and>
   subseq (filter is_ordinary mixed_first_section) mixed_first_plain \<and>
   snd (post_to_slack rejecting_env mixed_blob None []) =
     [SlackPost (slack_channel rejecting_env) (text_version mixed_blob)
        [Header (header_text None) True, Divider]]"
proof -
  have m: "mixed_first_section \<in> set (py_split divider mixed_blob)"
    by (simp add: mixed_blob_split)
  show ?thesis
    using unwrapped_section_contributes_no_block[OF m mixed_first_nonblank mixed_first_unwrapped,
        of None rejecting_env "[]"]
    unfolding mixed_first_text_version mixed_blob_blocks by simp
qed

section \<open>Orchestrator: the rejected post and the failing repository\<close>

text \<open>Nothing before the post writes a file.\<close>

lemma generate_summary_no_write:
  "generate_summary e s u w = (r, w') \<Longrightarrow> filter is_file_write w' = filter is_file_write w"
  by (auto simp: generate_summary_def is_file_write_def Let_def split: provider.splits)

lemma summarize_no_write:
  "summarize_with_ai e repo t w = (r, w') \<Longrightarrow> filter is_file_write w' = filter is_file_write w"
  by (auto simp: summarize_with_ai_def split: if_splits prod.splits sum.splits
      dest: generate_summary_no_write)

lemma get_merged_prs_no_write:
  "get_merged_prs e repo since w = (r, w') \<Longrightarrow> filter is_file_write w' = filter is_file_write w"
  by (auto simp: get_merged_prs_def is_file_write_def)

lemma collect_no_write:
  "collect_summaries e since repos acc w = (sums, w') \<Longrightarrow>
   filter is_file_write w' = filter is_file_write w"
proof (induction e since repos acc w arbitrary: sums w' rule: collect_summaries.induct)
  case (1 e since all_summaries w)
  then show ?case by simp
next
  case (2 e since r rs all_summaries w)
  show ?case
  proof (cases "py_strip r = []")
    case True
    then show ?thesis using 2(1)[OF refl True] 2(5) by simp
  next
    case False
    obtain res w1 where g: "get_merged_prs e (py_strip r) since w = (res, w1)"
      by (cases "get_merged_prs e (py_strip r) since w") auto
    have w1: "filter is_file_write w1 = filter is_file_write w"
      using get_merged_prs_no_write[OF g] .
    show ?thesis
    proof (cases res)
      case (Inl x)
      then show ?thesis
        using 2(2)[OF refl False g[symmetric, unfolded Inl] refl] 2(5) False g w1
        by simp
    next
      case (Inr prs)
      show ?thesis
      proof (cases "prs = []")
        case True
        then show ?thesis
          using 2(3)[OF refl False g[symmetric, unfolded Inr] refl True] 2(5) False g w1 Inr
          by simp
      next
        case np: False
        obtain summary w2 where
          s: "summarize_with_ai e (py_strip r) (format_prs_for_summary prs) w1 = (summary, w2)"
          by (cases "summarize_with_ai e (py_strip r) (format_prs_for_summary prs) w1") auto
        have w2: "filter is_file_write w2 = filter is_file_write w1"
          using summarize_no_write[OF s] .
        show ?thesis
          using 2(4)[OF refl False g[symmetric, unfolded Inr] refl np s[symmetric]] 2(5)
            False g w1 w2 Inr np s
          by simp
      qed
    qed
  qed
qed

text \<open>
  Claim C1, as the code has it. When the chat platform rejects the final post, the run
  ends in failure with the platform's exception (exit status 1) and no write of the
  output file has been attempted: the write comes after the post and is reached only when
  the post succeeds.
\<close>

theorem rejected_post_fails_without_write:
  assumes "collect_summaries e (window_start e days_back) repos [] w = (all_summaries, w1)"
    and "all_summaries \<noteq> []"
    and "post_to_slack e (py_join (nl @ nl) all_summaries) (Some (date_range e days_back)) w1 =
           (Inl x, w2)"
  shows "generate_release_notes e repos days_back w = (Inl x, w2) \<and>
         exit_status (fst (generate_release_notes e repos days_back w)) = 1 \<and>
         filter is_file_write w2 = filter is_file_write w"
proof -
  have r: "repos \<noteq> []" using assms(1,2) by auto
  have g: "generate_release_notes e repos days_back w = (Inl x, w2)"
    using assms r by (simp add: generate_release_notes_def)
  have "filter is_file_write w2 = filter is_file_write w1"
    using assms(3) by (auto simp: post_to_slack_def Let_def is_file_write_def)
  with g collect_no_write[OF assms(1)] show ?thesis by (simp add: exit_status_def)
qed

lemma rejecting_collect:
  "collect_summaries rejecting_env (window_start rejecting_env 7) [lit ''acme/web''] [] [] =
     ([no_changes_sentence (lit ''acme/web'')], [GithubQuery (lit ''acme/web'') (- 7)])"
  by code_simp

lemma rejecting_post:
  "post_to_slack rejecting_env (py_join (nl @ nl) [no_changes_sentence (lit ''acme/web'')])
     (Some (date_range rejecting_env 7)) [GithubQuery (lit ''acme/web'') (- 7)] =
   (Inl (Exn SlackApiError (lit ''channel_not_found'')), rejected_trace)"
  by code_simp

text \<open>The run on one repository without changes, with a platform that rejects the post.\<close>

theorem rejected_post_fails_without_write_witness:
  "generate_release_notes rejecting_env [lit ''acme/web''] 7 [] =
     (Inl (Exn SlackApiError (lit ''channel_not_found'')), rejected_trace) \<and>
   exit_status (fst (generate_release_notes rejecting_env [lit ''acme/web''] 7 [])) = 1 \<and>
   filter is_file_write rejected_trace = filter is_file_write []"
proof -
  have n: "[no_changes_sentence (lit ''acme/web'')] \<noteq> []" by simp
  show ?thesis
    by (rule rejected_post_fails_without_write[OF rejecting_collect n rejecting_post])
qed

text \<open>
  Claim C1, as the specification states it, fails: this run reaches the publish step (its
  last effect is the post), ends with the platform's exception, and its effects hold no
  attempt to write a file.
\<close>

theorem rejected_post_no_write_counterexample:
  "generate_release_notes rejecting_env [lit ''acme/web''] 7 [] =
     (Inl (Exn SlackApiError (lit ''channel_not_found'')), rejected_trace) \<and>
   filter is_file_write rejected_trace = []"
  by code_simp

text \<open>The loop yields one summary for each repository whose name is not blank, whatever
  the fetches and the provider do: no failure ends the loop.\<close>

lemma collect_one_summary_per_repository:
  "length (fst (collect_summaries e since repos acc w)) =
   length acc + length (filter (\<lambda>r. py_strip r \<noteq> []) repos)"
  by (induction e since repos acc w rule: collect_summaries.induct)
     (auto simp: Let_def split: prod.splits sum.splits)

text \<open>
  Claim C2. For a list of two repositories whose names are not blank, when the fetch for
  the first raises and the fetch for the second succeeds, the loop yields exactly two
  summaries: the error sentence with the first name and the exception's text, and the
  summary of the second (the "no changes" sentence when it has no pull request, the
  summarizer's text otherwise). The run goes on: the message joined from the two is posted.
\<close>

theorem failed_repository_is_isolated:
  assumes "py_strip a \<noteq> []" and "py_strip b \<noteq> []"
    and "get_merged_prs e (py_strip a) (window_start e days_back) w = (Inl x, w1)"
    and "get_merged_prs e (py_strip b) (window_start e days_back) w1 = (Inr prs, w2)"
    and "summary_b = (if prs = [] then no_changes_sentence (py_strip b)
                      else fst (summarize_with_ai e (py_strip b) (format_prs_for_summary prs) w2))"
    and "full_message =
           py_join (nl @ nl)
             [lit ''*'' @ py_strip a @ lit ''*: Error processing repository - '' @ exn_str x,
              summary_b]"
  shows "fst (collect_summaries e (window_start e days_back) [a, b] [] w) =
           [lit ''*'' @ py_strip a @ lit ''*: Error processing repository - '' @ exn_str x,
            summary_b] \<and>
         SlackPost (slack_channel e) (text_version full_message)
           (slack_blocks full_message (Some (date_range e days_back)))
           \<in> set (snd (generate_release_notes e [a, b] days_back w))"
proof -
  obtain s w3 where s: "summarize_with_ai e (py_strip b) (format_prs_for_summary prs) w2 = (s, w3)"
    by (cases "summarize_with_ai e (py_strip b) (format_prs_for_summary prs) w2") auto
  define w4 where "w4 = (if prs = [] then w2 else w3)"
  have c: "collect_summaries e (window_start e days_back) [a, b] [] w =
             ([error_sentence (py_strip a) x, summary_b], w4)"
    using assms(1-5) s by (simp add: w4_def)
  have m: "full_message = py_join (nl @ nl) [error_sentence (py_strip a) x, summary_b]"
    using assms(6) by (simp add: error_sentence_def)
  have "SlackPost (slack_channel e) (text_version full_message)
           (slack_blocks full_message (Some (date_range e days_back)))
           \<in> set (snd (generate_release_notes e [a, b] days_back w))"
    using c m
    by (auto simp: generate_release_notes_def post_to_slack_def Let_def
        split: sum.splits prod.splits)
  with c show ?thesis by (simp add: error_sentence_def)
qed

lemma partial_fetch_a:
  "get_merged_prs partial_env (py_strip (lit ''acme/web'')) (window_start partial_env 7) [] =
     (Inl (Exn OtherError (lit ''404 Not Found'')), [GithubQuery (lit ''acme/web'') (- 7)])"
  by code_simp

lemma partial_fetch_b:
  "get_merged_prs partial_env (py_strip (lit '' acme/api'')) (window_start partial_env 7)
     [GithubQuery (lit ''acme/web'') (- 7)] =
     (Inr [sample_pr\<lparr>repo_name := lit ''acme/api''\<rparr>],
      [GithubQuery (lit ''acme/web'') (- 7), GithubQuery (lit ''acme/api'') (- 7)])"
  by code_simp

lemma partial_summary_b:
  "(if [sample_pr\<lparr>repo_name := lit ''acme/api''\<rparr>] = []
    then no_changes_sentence (py_strip (lit '' acme/api''))
    else fst (summarize_with_ai partial_env (py_strip (lit '' acme/api''))
           (format_prs_for_summary [sample_pr\<lparr>repo_name := lit ''acme/api''\<rparr>])
           [GithubQuery (lit ''acme/web'') (- 7), GithubQuery (lit ''acme/api'') (- 7)])) =
   sample_summary (lit ''acme/api'')"
  by code_simp

lemma partial_sentence_a:
  "lit ''*'' @ py_strip (lit ''acme/web'') @ lit ''*: Error processing repository - '' @
     exn_str (Exn OtherError (lit ''404 Not Found'')) =
   lit ''*acme/web*: Error processing repository - 404 Not Found''"
  by code_simp

text \<open>A host that fails for the first repository and returns one pull request for the
  second, whose name is given with a leading blank.\<close>

theorem failed_repository_is_isolated_witness:
  "fst (collect_summaries partial_env (window_start partial_env 7)
          [lit ''acme/web'', lit '' acme/api''] [] []) =
     [lit ''*acme/web*: Error processing repository - 404 Not Found'',
      sample_summary (lit ''acme/api'')] \<and>
   SlackPost (slack_channel partial_env) (text_version partial_message)
     (slack_blocks partial_message (Some (date_range partial_env 7)))
     \<in> set (snd (generate_release_notes partial_env [lit ''acme/web'', lit '' acme/api''] 7 []))"
proof -
  have a: "py_strip (lit ''acme/web'') \<noteq> []" by code_simp
  have b: "py_strip (lit '' acme/api'') \<noteq> []" by code_simp
  show ?thesis
    using failed_repository_is_isolated[OF a b partial_fetch_a partial_fetch_b refl refl]
    unfolding partial_summary_b partial_sentence_a partial_message_def .
qed

end
